theory Spec2Isabelle
  imports Complex_Main "HOL-Library.AList"
begin

section \<open>Tables\<close>

text \<open>
  A pandas float is a finite value or NaN. Every comparison with NaN is false, which is
  all the code relies on; rounding plays no part in \<open>>=\<close> and \<open><=\<close>.
\<close>

datatype pyfloat = Fin real | NaN

text \<open>
  A cell of a table: a string, an integer, a float (a missing value is the float NaN)
  or a boolean.
\<close>

datatype cell = Str string | Intg int | Flt pyfloat | Bool bool

text \<open>
  A row carries its index label and its cells by column name. A table keeps the column
  names of its header, so that a table with no rows still has columns.
\<close>

type_synonym row = "int \<times> (string \<times> cell) list"

record dataframe =
  columns :: "string list"
  rows :: "row list"

datatype py_error = KeyError string | TypeError | ReError | NotModelled | ParserError

text \<open>\<open>pd.DataFrame()\<close>\<close>

definition empty_frame :: dataframe where
  "empty_frame = \<lparr>columns = [], rows = []\<rparr>"

text \<open>\<open>df.empty\<close>: some axis has length 0.\<close>

definition is_empty :: "dataframe \<Rightarrow> bool" where
  "is_empty df = (rows df = [] \<or> columns df = [])"

text \<open>The cell of a row in a column; a cell absent from the row is missing (NaN).\<close>

definition get_cell :: "row \<Rightarrow> string \<Rightarrow> cell" where
  "get_cell r c = (case map_of (snd r) c of Some v \<Rightarrow> v | None \<Rightarrow> Flt NaN)"

text \<open>
  \<open>df[c] = values\<close>: an existing column is replaced in place, a new one is appended
  as the last column. The value of each row is given as a function of the row.
\<close>

definition set_column :: "string \<Rightarrow> (row \<Rightarrow> cell) \<Rightarrow> dataframe \<Rightarrow> dataframe" where
  "set_column c f df =
     \<lparr>columns = (if c \<in> set (columns df) then columns df else columns df @ [c]),
      rows = map (\<lambda>r. (fst r, AList.update c (f r) (snd r))) (rows df)\<rparr>"

text \<open>\<open>df[mask]\<close> with a mask that cannot fail: the rows are kept in their order.\<close>

definition select_rows :: "(row \<Rightarrow> bool) \<Rightarrow> dataframe \<Rightarrow> dataframe" where
  "select_rows p df = df\<lparr>rows := filter p (rows df)\<rparr>"

text \<open>A mask whose computation may raise: the first failing row aborts the selection.\<close>

fun filter_rows :: "(row \<Rightarrow> py_error + bool) \<Rightarrow> row list \<Rightarrow> py_error + row list" where
  "filter_rows p [] = Inr []"
| "filter_rows p (r # rs) =
     (case p r of
        Inl e \<Rightarrow> Inl e
      | Inr b \<Rightarrow>
          (case filter_rows p rs of
             Inl e \<Rightarrow> Inl e
           | Inr rs' \<Rightarrow> Inr (if b then r # rs' else rs')))"

definition and_then :: "'e + 'a \<Rightarrow> ('a \<Rightarrow> 'e + 'b) \<Rightarrow> 'e + 'b" where
  "and_then m f = (case m of Inl e \<Rightarrow> Inl e | Inr x \<Rightarrow> f x)"

text \<open>\<open>df[c].isin(values)\<close>; reading a column the table does not have raises KeyError.\<close>

definition isin_column :: "string \<Rightarrow> cell list \<Rightarrow> dataframe \<Rightarrow> py_error + dataframe" where
  "isin_column c vals df =
     (if c \<in> set (columns df)
      then Inr (select_rows (\<lambda>r. get_cell r c \<in> set vals) df)
      else Inl (KeyError c))"

subsection \<open>Numbers\<close>

text \<open>
  \<open>pd.to_numeric(..., errors='coerce')\<close> on one cell. How Python reads a number from
  a string is a parameter \<open>parse\<close>; a string that is not a number gives NaN.
\<close>

fun to_numeric :: "(string \<Rightarrow> pyfloat) \<Rightarrow> cell \<Rightarrow> cell" where
  "to_numeric parse (Str s) = Flt (parse s)"
| "to_numeric parse c = c"

text \<open>The numeric value of a cell in a comparison; a string has none (TypeError).\<close>

fun as_float :: "cell \<Rightarrow> pyfloat option" where
  "as_float (Str s) = None"
| "as_float (Intg n) = Some (Fin (of_int n))"
| "as_float (Flt x) = Some x"
| "as_float (Bool b) = Some (Fin (if b then 1 else 0))"

fun float_ge :: "pyfloat \<Rightarrow> pyfloat \<Rightarrow> bool" where
  "float_ge (Fin a) (Fin b) = (a \<ge> b)"
| "float_ge _ _ = False"

fun float_le :: "pyfloat \<Rightarrow> pyfloat \<Rightarrow> bool" where
  "float_le (Fin a) (Fin b) = (a \<le> b)"
| "float_le _ _ = False"

text \<open>\<open>(df['score'] >= lo) & (df['score'] <= hi)\<close> on one row.\<close>

definition score_mask :: "pyfloat \<Rightarrow> pyfloat \<Rightarrow> row \<Rightarrow> py_error + bool" where
  "score_mask lo hi r =
     (case as_float (get_cell r ''score'') of
        None \<Rightarrow> Inl TypeError
      | Some x \<Rightarrow> Inr (float_ge x lo \<and> float_le x hi))"

definition score_between :: "pyfloat \<Rightarrow> pyfloat \<Rightarrow> dataframe \<Rightarrow> py_error + dataframe" where
  "score_between lo hi df =
     (if ''score'' \<in> set (columns df)
      then (case filter_rows (score_mask lo hi) (rows df) of
              Inl e \<Rightarrow> Inl e
            | Inr rs \<Rightarrow> Inr (df\<lparr>rows := rs\<rparr>))
      else Inl (KeyError ''score''))"

section \<open>DataManager (data\_manager.py)\<close>

text \<open>
  The object's two attributes, and the session key \<open>reviewed_items_json\<close> that
  \<open>_save_reviewed_state\<close> writes (\<open>None\<close>: the key is absent). The key holds
  \<open>list(self.reviewed_items)\<close>, whose order is the set's iteration order; the model
  keeps its elements.
\<close>

record data_manager =
  data :: "dataframe option"
  reviewed_items :: "int set"
  reviewed_items_json :: "int set option"

definition save_reviewed_state :: "data_manager \<Rightarrow> data_manager" where
  "save_reviewed_state dm = dm\<lparr>reviewed_items_json := Some (reviewed_items dm)\<rparr>"

definition mark_reviewed :: "data_manager \<Rightarrow> int \<Rightarrow> data_manager" where
  "mark_reviewed dm row_index =
     save_reviewed_state (dm\<lparr>reviewed_items := insert row_index (reviewed_items dm)\<rparr>)"

definition unmark_reviewed :: "data_manager \<Rightarrow> int \<Rightarrow> data_manager" where
  "unmark_reviewed dm row_index =
     save_reviewed_state (dm\<lparr>reviewed_items := reviewed_items dm - {row_index}\<rparr>)"

definition is_reviewed :: "data_manager \<Rightarrow> int \<Rightarrow> bool" where
  "is_reviewed dm row_index = (row_index \<in> reviewed_items dm)"

definition load_data :: "(string \<Rightarrow> pyfloat) \<Rightarrow> data_manager \<Rightarrow> dataframe \<Rightarrow> data_manager" where
  "load_data parse dm df =
     (if ''score'' \<in> set (columns df)
      then dm\<lparr>data := Some (set_column ''score'' (\<lambda>r. to_numeric parse (get_cell r ''score'')) df)\<rparr>
      else dm\<lparr>data := Some (set_column ''score'' (\<lambda>r. Flt (Fin 0.5)) df)\<rparr>)"

subsection \<open>Text search\<close>

text \<open>
  \<open>Series.str.contains(pat, case=False, na=False)\<close> leaves \<open>regex\<close> at its default
  \<open>True\<close>: the search term is compiled by Python's \<open>re\<close> with \<open>IGNORECASE\<close> and
  each string is searched for a match. The model covers the patterns built from ordinary
  characters, \<open>.\<close>, \<open>*\<close>, \<open>|\<close> and parentheses; a pattern with any other
  metacharacter is outside of it (\<open>NotModelled\<close>). Strings are ASCII.
\<close>

datatype rexp = Fail | Empty | Lit char | Dot | Seq rexp rexp | Alt rexp rexp | Star rexp | Group rexp

text \<open>
  Case is ignored by comparing the codes of the lower-cased characters: the code of an
  upper-case ASCII letter (65 to 90) is moved to its lower-case letter's.
\<close>

definition lower_code :: "char \<Rightarrow> nat" where
  "lower_code c = (let n = of_char c in if 65 \<le> n \<and> n \<le> 90 then n + 32 else n)"

text \<open>
  The parser reads the pattern from left to right. A frame holds the finished branches of
  the group being read and the items of its current branch, both latest first; the stack
  holds the frames of the enclosing groups.
\<close>

type_synonym frame = "rexp list \<times> rexp list"

fun seq_of :: "rexp list \<Rightarrow> rexp" where
  "seq_of [] = Empty"
| "seq_of (r # rs) = Seq (seq_of rs) r"

fun alt_of :: "rexp list \<Rightarrow> rexp" where
  "alt_of [] = Fail"
| "alt_of [r] = r"
| "alt_of (r # rs) = Alt (alt_of rs) r"

definition close_frame :: "frame \<Rightarrow> rexp" where
  "close_frame fr = alt_of (seq_of (snd fr) # fst fr)"

definition outside_fragment :: "char \<Rightarrow> bool" where
  "outside_fragment c = (c \<in> set ''^$+?{}[]'' \<or> c = CHR 0x5C)"

fun re_parse :: "string \<Rightarrow> frame \<Rightarrow> frame list \<Rightarrow> py_error + rexp" where
  "re_parse [] cur stack = (if stack = [] then Inr (close_frame cur) else Inl ReError)"
| "re_parse (c # cs) cur stack =
     (if c = CHR ''('' then re_parse cs ([], []) (cur # stack)
      else if c = CHR '')'' then
        (case stack of
           [] \<Rightarrow> Inl ReError
         | parent # stack' \<Rightarrow>
             re_parse cs (fst parent, Group (close_frame cur) # snd parent) stack')
      else if c = CHR ''|'' then re_parse cs (seq_of (snd cur) # fst cur, []) stack
      else if c = CHR ''*'' then
        (case snd cur of
           [] \<Rightarrow> Inl ReError
         | Star r # items \<Rightarrow> Inl ReError
         | r # items \<Rightarrow> re_parse cs (fst cur, Star r # items) stack)
      else if c = CHR ''.'' then re_parse cs (fst cur, Dot # snd cur) stack
      else if outside_fragment c then Inl NotModelled
      else re_parse cs (fst cur, Lit c # snd cur) stack)"

definition re_compile :: "string \<Rightarrow> py_error + rexp" where
  "re_compile pat = re_parse pat ([], []) []"

fun nullable :: "rexp \<Rightarrow> bool" where
  "nullable Fail = False"
| "nullable Empty = True"
| "nullable (Lit c) = False"
| "nullable Dot = False"
| "nullable (Seq r s) = (nullable r \<and> nullable s)"
| "nullable (Alt r s) = (nullable r \<or> nullable s)"
| "nullable (Star r) = True"
| "nullable (Group r) = nullable r"

text \<open>
  What is left to match after reading the character \<open>d\<close>. Under \<open>IGNORECASE\<close> a
  literal matches in either case; \<open>.\<close> matches every character but the newline.
\<close>

fun deriv :: "char \<Rightarrow> rexp \<Rightarrow> rexp" where
  "deriv d Fail = Fail"
| "deriv d Empty = Fail"
| "deriv d (Lit c) = (if lower_code c = lower_code d then Empty else Fail)"
| "deriv d Dot = (if d = CHR 0x0A then Fail else Empty)"
| "deriv d (Seq r s) =
     (if nullable r then Alt (Seq (deriv d r) s) (deriv d s) else Seq (deriv d r) s)"
| "deriv d (Alt r s) = Alt (deriv d r) (deriv d s)"
| "deriv d (Star r) = Seq (deriv d r) (Star r)"
| "deriv d (Group r) = deriv d r"

text \<open>A match that starts at the beginning of the string.\<close>

fun match_here :: "rexp \<Rightarrow> string \<Rightarrow> bool" where
  "match_here r [] = nullable r"
| "match_here r (d # ds) = (nullable r \<or> match_here (deriv d r) ds)"

text \<open>\<open>re.search\<close>: a match that starts anywhere in the string.\<close>

fun re_search :: "rexp \<Rightarrow> string \<Rightarrow> bool" where
  "re_search r [] = nullable r"
| "re_search r (d # ds) = (match_here r (d # ds) \<or> re_search r ds)"

text \<open>
  \<open>astype(str)\<close> on one cell. A string is itself; how Python prints a number, NaN or a
  boolean is a parameter \<open>num_str\<close>.
\<close>

fun astype_str :: "(cell \<Rightarrow> string) \<Rightarrow> cell \<Rightarrow> string" where
  "astype_str num_str (Str s) = s"
| "astype_str num_str c = num_str c"

text \<open>
  \<open>df[df.astype(str).apply(lambda x: x.str.contains(term, case=False, na=False)).any(axis=1)]\<close>.
  On a table with no rows or no columns \<open>apply\<close> does not run the lambda on the table's
  columns, and \<open>any(axis=1)\<close> is false for every row. Otherwise the term is compiled
  first, and an invalid pattern raises.
\<close>

definition search_rows :: "(cell \<Rightarrow> string) \<Rightarrow> string \<Rightarrow> dataframe \<Rightarrow> py_error + dataframe" where
  "search_rows num_str needle df =
     (if is_empty df then Inr (df\<lparr>rows := []\<rparr>)
      else
        (case re_compile needle of
           Inl e \<Rightarrow> Inl e
         | Inr re \<Rightarrow>
             Inr (select_rows
                   (\<lambda>r. list_ex (\<lambda>c. re_search re (astype_str num_str (get_cell r c))) (columns df))
                   df)))"

text \<open>
  The literal reading of the search: the lower-cased term occurs in the lower-cased
  string as a block of consecutive characters.
\<close>

fun starts_with :: "string \<Rightarrow> string \<Rightarrow> bool" where
  "starts_with [] s = True"
| "starts_with (c # cs) [] = False"
| "starts_with (c # cs) (d # ds) = (lower_code c = lower_code d \<and> starts_with cs ds)"

fun contains_literal :: "string \<Rightarrow> string \<Rightarrow> bool" where
  "contains_literal needle [] = starts_with needle []"
| "contains_literal needle (d # ds) = (starts_with needle (d # ds) \<or> contains_literal needle ds)"

text \<open>
  The words a pattern of the fragment matches, stated without the matcher: the reference
  against which \<open>match_here\<close> and \<open>re_search\<close> are checked.
\<close>

fun accepts :: "rexp \<Rightarrow> string \<Rightarrow> bool" where
  "accepts Fail w = False"
| "accepts Empty w = (w = [])"
| "accepts (Lit c) w = (\<exists>d. w = [d] \<and> lower_code c = lower_code d)"
| "accepts Dot w = (\<exists>d. w = [d] \<and> d \<noteq> CHR 0x0A)"
| "accepts (Seq r s) w = (\<exists>u v. w = u @ v \<and> accepts r u \<and> accepts s v)"
| "accepts (Alt r s) w = (accepts r w \<or> accepts s w)"
| "accepts (Star r) w = (\<exists>ws. w = concat ws \<and> (\<forall>u \<in> set ws. accepts r u))"
| "accepts (Group r) w = accepts r w"

text \<open>A character that is not a metacharacter of Python's \<open>re\<close>.\<close>

definition plain_char :: "char \<Rightarrow> bool" where
  "plain_char c = (c \<notin> set ''()|*.'' \<and> \<not> outside_fragment c)"

subsection \<open>filter\_data\<close>

text \<open>
  The keyword arguments of \<open>filter_data\<close>; \<open>None\<close> is an argument that was not
  passed.
\<close>

record filters =
  languages :: "cell list option"
  qualifications :: "cell list option"
  score_min :: "pyfloat option"
  score_max :: "pyfloat option"
  review_status :: "string option"
  search_term :: "string option"

definition language_filter :: "filters \<Rightarrow> dataframe \<Rightarrow> py_error + dataframe" where
  "language_filter f df =
     (case languages f of
        Some (v # vs) \<Rightarrow> isin_column ''language'' (v # vs) df
      | _ \<Rightarrow> Inr df)"

definition qualification_filter :: "filters \<Rightarrow> dataframe \<Rightarrow> py_error + dataframe" where
  "qualification_filter f df =
     (case qualifications f of
        Some (v # vs) \<Rightarrow> isin_column ''qualification_name'' (v # vs) df
      | _ \<Rightarrow> Inr df)"

definition score_filter :: "filters \<Rightarrow> dataframe \<Rightarrow> py_error + dataframe" where
  "score_filter f df =
     (case score_min f of
        None \<Rightarrow> Inr df
      | Some lo \<Rightarrow>
          (case score_max f of
             None \<Rightarrow> Inr df
           | Some hi \<Rightarrow> score_between lo hi df))"

definition review_filter :: "int set \<Rightarrow> filters \<Rightarrow> dataframe \<Rightarrow> dataframe" where
  "review_filter reviewed f df =
     (case review_status f of
        None \<Rightarrow> df
      | Some s \<Rightarrow>
          if s = ''reviewed'' then select_rows (\<lambda>r. fst r \<in> reviewed) df
          else if s = ''not_reviewed'' then select_rows (\<lambda>r. fst r \<notin> reviewed) df
          else df)"

definition search_filter :: "(cell \<Rightarrow> string) \<Rightarrow> filters \<Rightarrow> dataframe \<Rightarrow> py_error + dataframe" where
  "search_filter num_str f df =
     (case search_term f of
        Some (c # cs) \<Rightarrow> search_rows num_str (c # cs) df
      | _ \<Rightarrow> Inr df)"

definition filter_data :: "(cell \<Rightarrow> string) \<Rightarrow> data_manager \<Rightarrow> filters \<Rightarrow> py_error + dataframe" where
  "filter_data num_str dm f =
     (case data dm of
        None \<Rightarrow> Inr empty_frame
      | Some df \<Rightarrow>
          and_then (language_filter f df) (\<lambda>d1.
          and_then (qualification_filter f d1) (\<lambda>d2.
          and_then (score_filter f d2) (\<lambda>d3.
          search_filter num_str f (review_filter (reviewed_items dm) f d3)))))"

subsection \<open>export\_data\_with\_review\_status\<close>

text \<open>
  The argument is \<open>None\<close> when the caller passes no table. No statement of the method
  can raise, so it returns a table.
\<close>

definition export_data_with_review_status :: "data_manager \<Rightarrow> dataframe option \<Rightarrow> dataframe" where
  "export_data_with_review_status dm filtered_df =
     (let export_df =
        (case filtered_df of
           Some d \<Rightarrow> d
         | None \<Rightarrow> (case data dm of Some d \<Rightarrow> d | None \<Rightarrow> empty_frame))
      in if \<not> is_empty export_df
         then set_column ''reviewed_status'' (\<lambda>r. Bool (fst r \<in> reviewed_items dm)) export_df
         else export_df)"

section \<open>The page (app.py)\<close>

text \<open>The two session keys of the page.\<close>

record session_state =
  current_data :: "dataframe option"
  session_reviewed :: "int set"

subsection \<open>Upload\<close>

text \<open>
  What the sidebar shows for the upload: nothing without a file, the number of rows and
  columns after \<open>st.success\<close>, or the error after which \<open>main\<close> returns.
  \<open>pd.read_csv\<close> is a parameter: it gives a table or raises.
\<close>

datatype upload_report = NoFile | Loaded nat nat | LoadError py_error

definition upload :: "('f \<Rightarrow> py_error + dataframe) \<Rightarrow> session_state \<Rightarrow> 'f option \<Rightarrow> session_state \<times> upload_report" where
  "upload read_csv st uploaded_file =
     (case uploaded_file of
        None \<Rightarrow> (st, NoFile)
      | Some file \<Rightarrow>
          (case read_csv file of
             Inr df \<Rightarrow>
               (st\<lparr>current_data := Some df\<rparr>, Loaded (length (rows df)) (length (columns df)))
           | Inl e \<Rightarrow> (st, LoadError e)))"

subsection \<open>Filters of the page\<close>

text \<open>\<open>df = current_data.copy()\<close> with the score column made numeric when there is one.\<close>

definition numeric_view :: "(string \<Rightarrow> pyfloat) \<Rightarrow> dataframe \<Rightarrow> dataframe" where
  "numeric_view parse df =
     (if ''score'' \<in> set (columns df)
      then set_column ''score'' (\<lambda>r. to_numeric parse (get_cell r ''score'')) df
      else df)"

text \<open>
  \<open>df['score'].min()\<close> and \<open>max()\<close> skip missing values and are NaN when no value
  is left. They are read after \<open>to_numeric\<close>, so no cell of the column is a string.
\<close>

definition present_scores :: "dataframe \<Rightarrow> real list" where
  "present_scores df =
     List.map_filter
       (\<lambda>r. case as_float (get_cell r ''score'') of Some (Fin x) \<Rightarrow> Some x | _ \<Rightarrow> None)
       (rows df)"

definition column_min :: "dataframe \<Rightarrow> pyfloat" where
  "column_min df = (if present_scores df = [] then NaN else Fin (Min (set (present_scores df))))"

definition column_max :: "dataframe \<Rightarrow> pyfloat" where
  "column_max df = (if present_scores df = [] then NaN else Fin (Max (set (present_scores df))))"

text \<open>
  The bounds of the slider, which are also its initial value. Equal bounds are moved
  apart by 0.01; NaN is not equal to itself.
\<close>

definition slider_bounds :: "dataframe \<Rightarrow> pyfloat \<times> pyfloat" where
  "slider_bounds df =
     (case (column_min df, column_max df) of
        (Fin lo, Fin hi) \<Rightarrow> if lo = hi then (Fin lo, Fin (lo + 0.01)) else (Fin lo, Fin hi)
      | (lo, hi) \<Rightarrow> (lo, hi))"

text \<open>
  The widgets' values. The slider exists only when the table has a score column;
  without one the range is \<open>(0.0, 1.0)\<close>.
\<close>

record widgets =
  selected_languages :: "cell list"
  slider :: "pyfloat \<times> pyfloat"
  selected_qualifications :: "cell list"
  review_choice :: string
  search_box :: string

definition score_range :: "widgets \<Rightarrow> dataframe \<Rightarrow> pyfloat \<times> pyfloat" where
  "score_range w df = (if ''score'' \<in> set (columns df) then slider w else (Fin 0, Fin 1))"

definition page_filter :: "(cell \<Rightarrow> string) \<Rightarrow> int set \<Rightarrow> widgets \<Rightarrow> dataframe \<Rightarrow> py_error + dataframe" where
  "page_filter num_str reviewed w df =
     and_then (if selected_languages w \<noteq> []
               then isin_column ''language'' (selected_languages w) df else Inr df) (\<lambda>d1.
     and_then (if selected_qualifications w \<noteq> []
               then isin_column ''qualification_name'' (selected_qualifications w) d1
               else Inr d1) (\<lambda>d2.
     and_then (if ''score'' \<in> set (columns d2)
               then score_between (fst (score_range w df)) (snd (score_range w df)) d2
               else Inr d2) (\<lambda>d3.
     and_then (Inr (if review_choice w \<noteq> ''All''
                    then (if review_choice w = ''Reviewed''
                          then select_rows (\<lambda>r. fst r \<in> reviewed) d3
                          else select_rows (\<lambda>r. fst r \<notin> reviewed) d3)
                    else d3)) (\<lambda>d4.
     if search_box w \<noteq> [] then search_rows num_str (search_box w) d4 else Inr d4))))"

subsection \<open>Exports of the page\<close>

text \<open>
  \<open>df.loc[labels]\<close>: for each label in turn, the rows that carry it. The labels below
  are taken from the table's own index, so none is missing.
\<close>

definition loc :: "dataframe \<Rightarrow> int list \<Rightarrow> dataframe" where
  "loc df labels = df\<lparr>rows := concat (map (\<lambda>l. filter (\<lambda>r. fst r = l) (rows df)) labels)\<rparr>"

definition row_labels :: "dataframe \<Rightarrow> int list" where
  "row_labels df = map fst (rows df)"

text \<open>
  Each export is the table behind its download button, or \<open>None\<close> when the button is
  absent or disabled.
\<close>

definition export_all :: "int set \<Rightarrow> dataframe \<Rightarrow> dataframe option" where
  "export_all reviewed filtered_df =
     (if length (rows filtered_df) > 0
      then Some (set_column ''reviewed_status'' (\<lambda>r. Bool (fst r \<in> reviewed)) filtered_df)
      else None)"

definition export_reviewed :: "int set \<Rightarrow> dataframe \<Rightarrow> dataframe option" where
  "export_reviewed reviewed filtered_df =
     (if length (rows filtered_df) > 0
      then (let reviewed_indices = filter (\<lambda>idx. idx \<in> reviewed) (row_labels filtered_df)
            in if reviewed_indices \<noteq> []
               then Some (set_column ''reviewed_status'' (\<lambda>r. Bool True)
                            (loc filtered_df reviewed_indices))
               else None)
      else None)"

definition export_non_reviewed :: "int set \<Rightarrow> dataframe \<Rightarrow> dataframe option" where
  "export_non_reviewed reviewed filtered_df =
     (if length (rows filtered_df) > 0
      then (let non_reviewed_indices = filter (\<lambda>idx. idx \<notin> reviewed) (row_labels filtered_df)
            in if non_reviewed_indices \<noteq> []
               then Some (set_column ''reviewed_status'' (\<lambda>r. Bool False)
                            (loc filtered_df non_reviewed_indices))
               else None)
      else None)"

text \<open>The identifiers in an export; an export that is not offered has none.\<close>

definition export_ids :: "dataframe option \<Rightarrow> int set" where
  "export_ids e = (case e of None \<Rightarrow> {} | Some df \<Rightarrow> set (row_labels df))"

subsection \<open>Pagination\<close>

text \<open>\<open>xs[start:stop]\<close> with Python's reading of negative and too large positions.\<close>

definition py_slice :: "'a list \<Rightarrow> int \<Rightarrow> int \<Rightarrow> 'a list" where
  "py_slice xs start stop =
     (let n = int (length xs);
          lo = (if start < 0 then max 0 (n + start) else min start n);
          hi = (if stop < 0 then max 0 (n + stop) else min stop n)
      in take (nat (hi - lo)) (drop (nat lo) xs))"

definition total_pages :: "int \<Rightarrow> int \<Rightarrow> int" where
  "total_pages n items_per_page = max 1 ((n - 1) div items_per_page + 1)"

text \<open>
  \<open>st.number_input(min_value, max_value)\<close> gives a number between its two bounds: the
  widget moves a number typed outside of them to the nearer bound.
\<close>

definition number_input :: "int \<Rightarrow> int \<Rightarrow> int \<Rightarrow> int" where
  "number_input min_value max_value typed =
     (if typed < min_value then min_value else if max_value < typed then max_value else typed)"

text \<open>
  The rows of the page shown for a typed page number, with the positions of the slice;
  \<open>None\<close> when the table has no rows and the page warns that no data matches.
\<close>

record page =
  page_no :: int
  start_idx :: int
  end_idx :: int
  page_data :: "row list"

definition show_page :: "dataframe \<Rightarrow> int \<Rightarrow> int \<Rightarrow> page option" where
  "show_page filtered_df items_per_page typed =
     (if length (rows filtered_df) > 0
      then (let n = int (length (rows filtered_df));
                p = number_input 1 (total_pages n items_per_page) typed;
                s = (p - 1) * items_per_page;
                e = min (s + items_per_page) n
            in Some \<lparr>page_no = p, start_idx = s, end_idx = e,
                     page_data = py_slice (rows filtered_df) s e\<rparr>)
      else None)"

definition page_rows :: "dataframe \<Rightarrow> int \<Rightarrow> int \<Rightarrow> row list" where
  "page_rows filtered_df items_per_page typed =
     (case show_page filtered_df items_per_page typed of None \<Rightarrow> [] | Some pg \<Rightarrow> page_data pg)"

section \<open>Calls and invariants used in the statements\<close>

text \<open>
  The call \<open>filter_data(languages=[], qualifications=[], review_status='All',
  search_term='')\<close>: every filter at its default, no score bound passed.
\<close>

definition default_filters :: filters where
  "default_filters =
     \<lparr>languages = Some [], qualifications = Some [], score_min = None, score_max = None,
      review_status = Some ''All'', search_term = Some ''''\<rparr>"


text \<open>
  What \<open>load_data\<close> establishes for the score column: it exists and none of its cells
  is a string, so a comparison with a float cannot raise.
\<close>

definition numeric_scores :: "dataframe \<Rightarrow> bool" where
  "numeric_scores t = (''score'' \<in> set (columns t)
      \<and> (\<forall>r \<in> set (rows t). as_float (get_cell r ''score'') \<noteq> None))"


section \<open>Review marks\<close>

text \<open>
  C1, as amended. After \<open>mark_reviewed\<close> and then \<open>unmark_reviewed\<close> of the same
  identifier, that identifier is not in the review set and every other identifier is a
  member exactly when it was before. The membership of the identifier itself is
  therefore restored only when it was not a member before the mark.
\<close>

theorem mark_then_unmark_membership:
  "is_reviewed (unmark_reviewed (mark_reviewed dm i) i) j = (j \<noteq> i \<and> is_reviewed dm j)"
  by (auto simp: is_reviewed_def unmark_reviewed_def mark_reviewed_def save_reviewed_state_def)

theorem mark_then_unmark_membership_witness:
  "is_reviewed (unmark_reviewed (mark_reviewed \<lparr>data = None, reviewed_items = {3}, reviewed_items_json = None\<rparr> 7) 7) 3
   \<and> \<not> is_reviewed (unmark_reviewed (mark_reviewed \<lparr>data = None, reviewed_items = {3}, reviewed_items_json = None\<rparr> 7) 7) 7"
  using mark_then_unmark_membership
    [of "\<lparr>data = None, reviewed_items = {3}, reviewed_items_json = None\<rparr>" 7 3]
    mark_then_unmark_membership
    [of "\<lparr>data = None, reviewed_items = {3}, reviewed_items_json = None\<rparr>" 7 7]
  by (simp add: is_reviewed_def)

text \<open>
  The claim as written fails when the identifier was already reviewed: it was a member
  before the mark and is not one after the unmark.
\<close>

theorem mark_then_unmark_counterexample:
  "\<not> (is_reviewed (unmark_reviewed (mark_reviewed \<lparr>data = None, reviewed_items = {5}, reviewed_items_json = None\<rparr> 5) 5) 5
       = is_reviewed \<lparr>data = None, reviewed_items = {5}, reviewed_items_json = None\<rparr> 5)"
  by (simp add: is_reviewed_def unmark_reviewed_def mark_reviewed_def save_reviewed_state_def)


section \<open>Basic facts about tables\<close>

lemma and_then_Inr [simp]: "and_then (Inr x) f = f x"
  by (simp add: and_then_def)

lemma and_then_Inl [simp]: "and_then (Inl e) f = Inl e"
  by (simp add: and_then_def)


lemma get_cell_update:
  "get_cell (i, AList.update c v al) c' = (if c' = c then v else get_cell (i, al) c')"
  by (simp add: get_cell_def update_conv')

lemma rows_set_column:
  "rows (set_column c f df) = map (\<lambda>r. (fst r, AList.update c (f r) (snd r))) (rows df)"
  by (simp add: set_column_def)

lemma columns_set_column:
  "columns (set_column c f df) = (if c \<in> set (columns df) then columns df else columns df @ [c])"
  by (simp add: set_column_def)

lemma length_rows_set_column [simp]: "length (rows (set_column c f df)) = length (rows df)"
  by (simp add: set_column_def)

lemma nth_set_column:
  assumes "k < length (rows df)"
  shows "fst (rows (set_column c f df) ! k) = fst (rows df ! k)"
    and "get_cell (rows (set_column c f df) ! k) c' =
           (if c' = c then f (rows df ! k) else get_cell (rows df ! k) c')"
  using assms by (simp_all add: rows_set_column get_cell_update[of "fst (rows df ! k)", simplified])

lemma is_empty_empty_frame [simp]: "is_empty empty_frame"
  by (simp add: is_empty_def empty_frame_def)


lemma filter_rows_total:
  assumes "\<And>r. r \<in> set rs \<Longrightarrow> p r = Inr (q r)"
  shows "filter_rows p rs = Inr (filter q rs)"
  using assms by (induction rs) simp_all

lemma as_float_to_numeric: "as_float (to_numeric parse c) \<noteq> None"
  by (cases c) simp_all

lemma get_cell_in_set_column:
  assumes "r' \<in> set (rows (set_column c f df))"
  obtains r where "r \<in> set (rows df)" and "fst r' = fst r" and "get_cell r' c = f r"
    and "\<And>c'. c' \<noteq> c \<Longrightarrow> get_cell r' c' = get_cell r c'"
proof -
  from assms obtain r where r: "r \<in> set (rows df)" "r' = (fst r, AList.update c (f r) (snd r))"
    by (auto simp: rows_set_column)
  have "get_cell r' c' = (if c' = c then f r else get_cell r c')" for c'
    using get_cell_update[of "fst r" c "f r" "snd r" c'] r(2) by simp
  with r that show thesis by simp
qed

lemma numeric_scores_set_column:
  assumes "\<And>r. as_float (f r) \<noteq> None"
  shows "numeric_scores (set_column ''score'' f df)"
  unfolding numeric_scores_def
proof (intro conjI ballI)
  show "''score'' \<in> set (columns (set_column ''score'' f df))"
    by (simp add: columns_set_column)
next
  fix r' assume "r' \<in> set (rows (set_column ''score'' f df))"
  then obtain r where "get_cell r' ''score'' = f r"
    by (rule get_cell_in_set_column)
  with assms show "as_float (get_cell r' ''score'') \<noteq> None" by simp
qed

lemma load_data_cases:
  "data (load_data parse dm df) =
     Some (if ''score'' \<in> set (columns df)
           then set_column ''score'' (\<lambda>r. to_numeric parse (get_cell r ''score'')) df
           else set_column ''score'' (\<lambda>r. Flt (Fin 0.5)) df)"
  by (simp add: load_data_def)

lemma numeric_scores_load_data:
  assumes "data (load_data parse dm df) = Some t"
  shows "numeric_scores t"
proof -
  have "t = (if ''score'' \<in> set (columns df)
           then set_column ''score'' (\<lambda>r. to_numeric parse (get_cell r ''score'')) df
           else set_column ''score'' (\<lambda>r. Flt (Fin 0.5)) df)"
    using assms by (simp add: load_data_cases)
  then show ?thesis
    by (simp add: numeric_scores_set_column as_float_to_numeric)
qed

lemma score_between_numeric:
  assumes "numeric_scores t"
  shows "score_between lo hi t =
     Inr (select_rows (\<lambda>r. case as_float (get_cell r ''score'') of
                              Some x \<Rightarrow> float_ge x lo \<and> float_le x hi | None \<Rightarrow> False) t)"
proof -
  have "filter_rows (score_mask lo hi) (rows t) =
      Inr (filter (\<lambda>r. case as_float (get_cell r ''score'') of
                              Some x \<Rightarrow> float_ge x lo \<and> float_le x hi | None \<Rightarrow> False) (rows t))"
    using assms
    by (intro filter_rows_total) (auto simp: numeric_scores_def score_mask_def)
  with assms show ?thesis
    by (simp add: score_between_def numeric_scores_def select_rows_def)
qed

lemma select_rows_cong:
  assumes "\<And>r. r \<in> set (rows t) \<Longrightarrow> p r = q r"
  shows "select_rows p t = select_rows q t"
  using assms by (simp add: select_rows_def cong: filter_cong)

lemma in_range_Fin:
  "(case as_float c of Some x \<Rightarrow> float_ge x (Fin a) \<and> float_le x (Fin b) | None \<Rightarrow> False)
    = (case as_float c of Some (Fin s) \<Rightarrow> a \<le> s \<and> s \<le> b | _ \<Rightarrow> False)"
  by (simp split: option.split pyfloat.split)

lemma score_between_Fin:
  assumes "numeric_scores t"
  shows "score_between (Fin a) (Fin b) t =
     Inr (select_rows (\<lambda>r. case as_float (get_cell r ''score'') of
                              Some (Fin s) \<Rightarrow> a \<le> s \<and> s \<le> b | _ \<Rightarrow> False) t)"
  using score_between_numeric[OF assms, of "Fin a" "Fin b"] by (simp add: in_range_Fin)

lemma present_scores_iff:
  "s \<in> set (present_scores t) \<longleftrightarrow>
     (\<exists>r \<in> set (rows t). as_float (get_cell r ''score'') = Some (Fin s))"
proof -
  have "s \<in> set (List.map_filter g rs) \<longleftrightarrow> (\<exists>r \<in> set rs. g r = Some s)"
    for g :: "row \<Rightarrow> real option" and rs
    by (induction rs) (auto simp: map_filter_simps split: option.splits)
  moreover have "(case v of Some (Fin x) \<Rightarrow> Some x | _ \<Rightarrow> None) = Some s \<longleftrightarrow> v = Some (Fin s)"
    for v :: "pyfloat option"
    by (simp split: option.split pyfloat.split)
  ultimately show ?thesis
    by (simp add: present_scores_def)
qed

lemma within_column_bounds:
  assumes "r \<in> set (rows t)"
  shows "(case as_float (get_cell r ''score'') of
            Some x \<Rightarrow> float_ge x (column_min t) \<and> float_le x (column_max t) | None \<Rightarrow> False)
       = (case as_float (get_cell r ''score'') of Some (Fin s) \<Rightarrow> True | _ \<Rightarrow> False)"
proof (cases "as_float (get_cell r ''score'')")
  case None
  then show ?thesis by simp
next
  case (Some x)
  show ?thesis
  proof (cases x)
    case NaN
    with Some show ?thesis by simp
  next
    case (Fin s)
    with Some assms have in_set: "s \<in> set (present_scores t)"
      by (auto simp: present_scores_iff)
    then have "present_scores t \<noteq> []" by auto
    moreover have "Min (set (present_scores t)) \<le> s" "s \<le> Max (set (present_scores t))"
      using in_set by simp_all
    ultimately show ?thesis
      using Some Fin by (simp add: column_min_def column_max_def)
  qed
qed

lemma score_between_column_bounds:
  assumes "numeric_scores t"
  shows "score_between (column_min t) (column_max t) t =
     Inr (select_rows (\<lambda>r. case as_float (get_cell r ''score'') of
                              Some (Fin s) \<Rightarrow> True | _ \<Rightarrow> False) t)"
  unfolding score_between_numeric[OF assms]
  by (simp add: within_column_bounds cong: select_rows_cong)

lemma filter_data_score_only:
  assumes "data dm = Some t"
  shows "filter_data num_str dm (default_filters\<lparr>score_min := Some lo, score_max := Some hi\<rparr>)
           = score_between lo hi t"
  using assms
  by (simp add: filter_data_def default_filters_def language_filter_def qualification_filter_def
      score_filter_def review_filter_def search_filter_def and_then_def split: sum.split)

lemma columns_select_rows [simp]: "columns (select_rows p t) = columns t"
  by (simp add: select_rows_def)

lemma columns_score_between:
  "score_between lo hi t = Inr t' \<Longrightarrow> columns t' = columns t"
  by (auto simp: score_between_def split: if_splits sum.splits)

lemma page_filter_score_only:
  "page_filter num_str R
     \<lparr>selected_languages = [], slider = sl, selected_qualifications = [],
      review_choice = ''All'', search_box = ''''\<rparr> t
   = (if ''score'' \<in> set (columns t) then score_between (fst sl) (snd sl) t else Inr t)"
  by (simp add: page_filter_def score_range_def and_then_def split: sum.split)

lemma numeric_scores_numeric_view:
  assumes "''score'' \<in> set (columns df)"
  shows "numeric_scores (numeric_view parse df)"
  using assms by (simp add: numeric_view_def numeric_scores_set_column as_float_to_numeric)

lemma within_slider_bounds:
  assumes "r \<in> set (rows t)"
  shows "(case as_float (get_cell r ''score'') of
            Some x \<Rightarrow> float_ge x (fst (slider_bounds t)) \<and> float_le x (snd (slider_bounds t))
          | None \<Rightarrow> False)
       = (case as_float (get_cell r ''score'') of Some (Fin s) \<Rightarrow> True | _ \<Rightarrow> False)"
proof (cases "present_scores t = []")
  case True
  then have sb: "slider_bounds t = (column_min t, column_max t)"
    by (simp add: slider_bounds_def column_min_def column_max_def)
  show ?thesis unfolding sb fst_conv snd_conv by (rule within_column_bounds[OF assms])
next
  case False
  let ?lo = "Min (set (present_scores t))" and ?hi = "Max (set (present_scores t))"
  have mm: "column_min t = Fin ?lo" "column_max t = Fin ?hi"
    using False by (simp_all add: column_min_def column_max_def)
  show ?thesis
  proof (cases "?lo = ?hi")
    case False
    then have sb: "slider_bounds t = (column_min t, column_max t)"
      by (simp add: slider_bounds_def mm)
    show ?thesis unfolding sb fst_conv snd_conv by (rule within_column_bounds[OF assms])
  next
    case True
    then have sb: "slider_bounds t = (Fin ?lo, Fin (?lo + 0.01))"
      by (simp add: slider_bounds_def mm)
    have within_column: "(case as_float (get_cell r ''score'') of
            Some x \<Rightarrow> float_ge x (Fin ?lo) \<and> float_le x (Fin ?hi) | None \<Rightarrow> False)
       = (case as_float (get_cell r ''score'') of Some (Fin s) \<Rightarrow> True | _ \<Rightarrow> False)"
      using within_column_bounds[OF assms] unfolding mm .
    show ?thesis
      unfolding sb fst_conv snd_conv using within_column True
      by (cases "as_float (get_cell r ''score'')"; simp split: pyfloat.splits)
  qed
qed

lemma score_between_slider_bounds:
  assumes "numeric_scores t"
  shows "score_between (fst (slider_bounds t)) (snd (slider_bounds t)) t =
     Inr (select_rows (\<lambda>r. case as_float (get_cell r ''score'') of
                              Some (Fin s) \<Rightarrow> True | _ \<Rightarrow> False) t)"
  unfolding score_between_numeric[OF assms]
  by (simp add: within_slider_bounds cong: select_rows_cong)


section \<open>Loading and uploading\<close>

text \<open>
  C9. Loading a table leaves the review set as it was: \<open>load_data\<close> changes neither
  \<open>reviewed_items\<close> nor the saved session key, so every identifier is reviewed after
  the load exactly when it was before, and an upload to the page, whether it succeeds or
  fails, leaves the page's review set unchanged.
\<close>

theorem load_keeps_review_set:
  "reviewed_items (load_data parse dm df) = reviewed_items dm
   \<and> reviewed_items_json (load_data parse dm df) = reviewed_items_json dm
   \<and> is_reviewed (load_data parse dm df) i = is_reviewed dm i
   \<and> session_reviewed (fst (upload read_csv st uploaded_file)) = session_reviewed st"
  by (simp add: load_data_def is_reviewed_def upload_def split: option.split sum.split)


theorem load_keeps_review_set_witness:
  "reviewed_items
     (load_data (\<lambda>s. NaN)
        \<lparr>data = None, reviewed_items = {0, 5}, reviewed_items_json = Some {0, 5}\<rparr>
        \<lparr>columns = [''language''], rows = [(0, [(''language'', Str ''EN'')])]\<rparr>) = {0, 5}
   \<and> is_reviewed
     (load_data (\<lambda>s. NaN)
        \<lparr>data = None, reviewed_items = {0, 5}, reviewed_items_json = Some {0, 5}\<rparr>
        \<lparr>columns = [''language''], rows = [(0, [(''language'', Str ''EN'')])]\<rparr>) 5
   \<and> session_reviewed
       (fst (upload (\<lambda>f. Inr \<lparr>columns = [''language''], rows = [(0, [(''language'', Str ''EN'')])]\<rparr>)
               \<lparr>current_data = None, session_reviewed = {0, 5}\<rparr> (Some ''new.csv''))) = {0, 5}"
  using load_keeps_review_set
    [where parse = "\<lambda>s. NaN"
       and dm = "\<lparr>data = None, reviewed_items = {0, 5}, reviewed_items_json = Some {0, 5}\<rparr>"
       and df = "\<lparr>columns = [''language''], rows = [(0, [(''language'', Str ''EN'')])]\<rparr>"
       and i = 5
       and read_csv = "\<lambda>f. Inr \<lparr>columns = [''language''], rows = [(0, [(''language'', Str ''EN'')])]\<rparr>"
       and st = "\<lparr>current_data = None, session_reviewed = {0, 5}\<rparr>"
       and uploaded_file = "Some ''new.csv''"]
  by (simp add: is_reviewed_def)

text \<open>
  C8. When \<open>read_csv\<close> raises on the uploaded file, the upload reports the error and
  the session state (the loaded table and the review set) is the one before the upload.
\<close>

theorem upload_failure_keeps_state:
  assumes "read_csv csv = Inl e"
  shows "upload read_csv st (Some csv) = (st, LoadError e)"
  using assms by (simp add: upload_def)


theorem upload_failure_keeps_state_witness:
  "(\<lambda>f. if f = ''bad.csv'' then Inl ParserError else Inr empty_frame) ''bad.csv'' = Inl ParserError
   \<and> upload (\<lambda>f. if f = ''bad.csv'' then Inl ParserError else Inr empty_frame)
        \<lparr>current_data = Some \<lparr>columns = [''language''], rows = [(0, [(''language'', Str ''EN'')])]\<rparr>,
         session_reviewed = {0}\<rparr>
        (Some ''bad.csv'')
     = (\<lparr>current_data = Some \<lparr>columns = [''language''], rows = [(0, [(''language'', Str ''EN'')])]\<rparr>,
         session_reviewed = {0}\<rparr>,
        LoadError ParserError)"
  using upload_failure_keeps_state
    [where read_csv = "\<lambda>f. if f = ''bad.csv'' then Inl ParserError else Inr empty_frame"
       and csv = "''bad.csv''" and e = ParserError
       and st = "\<lparr>current_data = Some \<lparr>columns = [''language''], rows = [(0, [(''language'', Str ''EN'')])]\<rparr>,
         session_reviewed = {0}\<rparr>"]
  by simp

section \<open>Filtering\<close>

text \<open>
  C7. With every filter at its default, \<open>filter_data\<close> returns the loaded table
  itself: the same columns and the same rows in the same order, whatever the review set.
\<close>

theorem filter_data_defaults:
  assumes "data dm = Some df"
  shows "filter_data num_str dm default_filters = Inr df"
  using assms
  by (simp add: filter_data_def default_filters_def language_filter_def qualification_filter_def
      score_filter_def review_filter_def search_filter_def)


theorem filter_data_defaults_witness:
  "data \<lparr>data = Some \<lparr>columns = [''language'', ''score''],
                     rows = [(0, [(''language'', Str ''EN''), (''score'', Flt (Fin 0.9))]),
                             (1, [(''language'', Str ''FR''), (''score'', Flt NaN)])]\<rparr>,
         reviewed_items = {1}, reviewed_items_json = None\<rparr>
     = Some \<lparr>columns = [''language'', ''score''],
             rows = [(0, [(''language'', Str ''EN''), (''score'', Flt (Fin 0.9))]),
                     (1, [(''language'', Str ''FR''), (''score'', Flt NaN)])]\<rparr>
   \<and> filter_data (\<lambda>c. ''?'')
        \<lparr>data = Some \<lparr>columns = [''language'', ''score''],
                     rows = [(0, [(''language'', Str ''EN''), (''score'', Flt (Fin 0.9))]),
                             (1, [(''language'', Str ''FR''), (''score'', Flt NaN)])]\<rparr>,
         reviewed_items = {1}, reviewed_items_json = None\<rparr>
        default_filters
     = Inr \<lparr>columns = [''language'', ''score''],
            rows = [(0, [(''language'', Str ''EN''), (''score'', Flt (Fin 0.9))]),
                    (1, [(''language'', Str ''FR''), (''score'', Flt NaN)])]\<rparr>"
  using filter_data_defaults
    [where dm = "\<lparr>data = Some \<lparr>columns = [''language'', ''score''],
                     rows = [(0, [(''language'', Str ''EN''), (''score'', Flt (Fin 0.9))]),
                             (1, [(''language'', Str ''FR''), (''score'', Flt NaN)])]\<rparr>,
         reviewed_items = {1}, reviewed_items_json = None\<rparr>"
       and num_str = "\<lambda>c. ''?''"]
  by simp

lemma select_rows_const:
  "select_rows (\<lambda>r. b) t = (if b then t else t\<lparr>rows := []\<rparr>)"
  by (simp add: select_rows_def)

lemma numeric_view_without_score:
  "''score'' \<notin> set (columns df) \<Longrightarrow> numeric_view parse df = df"
  by (simp add: numeric_view_def)

text \<open>
  C3. Loading a table that has no \<open>score\<close> column succeeds: the loaded table is the
  uploaded one with a last column \<open>score\<close> whose cell is 0.5 in every row. The score
  filter of \<open>filter_data\<close> with bounds \<open>a\<close> and \<open>b\<close> then keeps every row when
  \<open>a \<le> 0.5 \<le> b\<close> and no row otherwise. On the page, where no column is added, the
  range is \<open>(0.0, 1.0)\<close> and the score filter keeps every row.
\<close>

theorem missing_score_column_fallback:
  assumes "''score'' \<notin> set (columns df)"
  shows "\<exists>t. data (load_data parse dm df) = Some t
      \<and> columns t = columns df @ [''score'']
      \<and> length (rows t) = length (rows df)
      \<and> (\<forall>k < length (rows df).
            fst (rows t ! k) = fst (rows df ! k)
            \<and> get_cell (rows t ! k) ''score'' = Flt (Fin 0.5)
            \<and> (\<forall>c. c \<noteq> ''score'' \<longrightarrow> get_cell (rows t ! k) c = get_cell (rows df ! k) c))
      \<and> filter_data num_str (load_data parse dm df)
            (default_filters\<lparr>score_min := Some (Fin a), score_max := Some (Fin b)\<rparr>)
          = Inr (if a \<le> 0.5 \<and> 0.5 \<le> b then t else t\<lparr>rows := []\<rparr>)
      \<and> score_range w (numeric_view parse df) = (Fin 0, Fin 1)
      \<and> page_filter num_str R
            \<lparr>selected_languages = [], slider = sl, selected_qualifications = [],
             review_choice = ''All'', search_box = ''''\<rparr> (numeric_view parse df)
          = Inr df"
proof -
  let ?t = "set_column ''score'' (\<lambda>r. Flt (Fin 0.5)) df"
  have loaded: "data (load_data parse dm df) = Some ?t"
    using assms by (simp add: load_data_cases)
  have cols: "columns ?t = columns df @ [''score'']"
    using assms by (simp add: columns_set_column)
  have cells: "\<forall>k < length (rows df).
            fst (rows ?t ! k) = fst (rows df ! k)
            \<and> get_cell (rows ?t ! k) ''score'' = Flt (Fin 0.5)
            \<and> (\<forall>c. c \<noteq> ''score'' \<longrightarrow> get_cell (rows ?t ! k) c = get_cell (rows df ! k) c)"
    by (simp add: nth_set_column)
  have half: "get_cell r ''score'' = Flt (Fin 0.5)" if "r \<in> set (rows ?t)" for r
    using that by (rule get_cell_in_set_column)
  have num: "numeric_scores ?t"
    using loaded by (rule numeric_scores_load_data)
  have "select_rows (\<lambda>r. case as_float (get_cell r ''score'') of
                              Some (Fin s) \<Rightarrow> a \<le> s \<and> s \<le> b | _ \<Rightarrow> False) ?t
        = select_rows (\<lambda>r. a \<le> 0.5 \<and> 0.5 \<le> b) ?t"
    by (rule select_rows_cong) (simp add: half)
  then have "score_between (Fin a) (Fin b) ?t = Inr (select_rows (\<lambda>r. a \<le> 0.5 \<and> 0.5 \<le> b) ?t)"
    by (simp only: score_between_Fin[OF num])
  then have filtered: "filter_data num_str (load_data parse dm df)
            (default_filters\<lparr>score_min := Some (Fin a), score_max := Some (Fin b)\<rparr>)
          = Inr (if a \<le> 0.5 \<and> 0.5 \<le> b then ?t else ?t\<lparr>rows := []\<rparr>)"
    by (simp only: filter_data_score_only[OF loaded] select_rows_const)
  have range: "score_range w (numeric_view parse df) = (Fin 0, Fin 1)"
    using assms by (simp add: score_range_def numeric_view_without_score)
  have page: "page_filter num_str R
            \<lparr>selected_languages = [], slider = sl, selected_qualifications = [],
             review_choice = ''All'', search_box = ''''\<rparr> (numeric_view parse df)
          = Inr df"
    using assms by (simp add: page_filter_score_only numeric_view_without_score)
  from loaded cols cells filtered range page show ?thesis
    by (intro exI[of _ ?t] conjI) simp_all
qed

theorem missing_score_column_fallback_witness:
  "''score'' \<notin> set (columns \<lparr>columns = [''language''],
        rows = [(0, [(''language'', Str ''EN'')]), (1, [(''language'', Str ''FR'')])]\<rparr>)
   \<and> filter_data (\<lambda>c. ''?'')
        (load_data (\<lambda>s. NaN) \<lparr>data = None, reviewed_items = {}, reviewed_items_json = None\<rparr>
            \<lparr>columns = [''language''],
             rows = [(0, [(''language'', Str ''EN'')]), (1, [(''language'', Str ''FR'')])]\<rparr>)
        (default_filters\<lparr>score_min := Some (Fin 0.2), score_max := Some (Fin 0.8)\<rparr>)
      = Inr \<lparr>columns = [''language'', ''score''],
             rows = [(0, [(''language'', Str ''EN''), (''score'', Flt (Fin 0.5))]),
                     (1, [(''language'', Str ''FR''), (''score'', Flt (Fin 0.5))])]\<rparr>
   \<and> filter_data (\<lambda>c. ''?'')
        (load_data (\<lambda>s. NaN) \<lparr>data = None, reviewed_items = {}, reviewed_items_json = None\<rparr>
            \<lparr>columns = [''language''],
             rows = [(0, [(''language'', Str ''EN'')]), (1, [(''language'', Str ''FR'')])]\<rparr>)
        (default_filters\<lparr>score_min := Some (Fin 0.6), score_max := Some (Fin 0.8)\<rparr>)
      = Inr \<lparr>columns = [''language'', ''score''], rows = []\<rparr>"
  using missing_score_column_fallback
    [where df = "\<lparr>columns = [''language''],
             rows = [(0, [(''language'', Str ''EN'')]), (1, [(''language'', Str ''FR'')])]\<rparr>"
       and parse = "\<lambda>s. NaN"
       and dm = "\<lparr>data = None, reviewed_items = {}, reviewed_items_json = None\<rparr>"
       and num_str = "\<lambda>c. ''?''" and a = "0.2" and b = "0.8"]
    missing_score_column_fallback
    [where df = "\<lparr>columns = [''language''],
             rows = [(0, [(''language'', Str ''EN'')]), (1, [(''language'', Str ''FR'')])]\<rparr>"
       and parse = "\<lambda>s. NaN"
       and dm = "\<lparr>data = None, reviewed_items = {}, reviewed_items_json = None\<rparr>"
       and num_str = "\<lambda>c. ''?''" and a = "0.6" and b = "0.8"]
  by (auto simp: load_data_def set_column_def)

text \<open>
  C6. On a loaded table the score filter with bounds \<open>a\<close> and \<open>b\<close> keeps, in the
  table's order, exactly the rows whose score is a number \<open>s\<close> with \<open>a \<le> s\<close> and
  \<open>s \<le> b\<close>. With the column's minimum and maximum as bounds it keeps exactly the rows
  whose score is present (not NaN). The page's filter does the same on a table with a score
  column, for a chosen range and for the slider's initial range.
\<close>

theorem score_range_filter_inclusive:
  assumes "data (load_data parse dm df) = Some t"
  shows "filter_data num_str (load_data parse dm df)
           (default_filters\<lparr>score_min := Some (Fin a), score_max := Some (Fin b)\<rparr>)
         = Inr (select_rows (\<lambda>r. case as_float (get_cell r ''score'') of
                                    Some (Fin s) \<Rightarrow> a \<le> s \<and> s \<le> b | _ \<Rightarrow> False) t)
     \<and> filter_data num_str (load_data parse dm df)
           (default_filters\<lparr>score_min := Some (column_min t), score_max := Some (column_max t)\<rparr>)
         = Inr (select_rows (\<lambda>r. case as_float (get_cell r ''score'') of
                                    Some (Fin s) \<Rightarrow> True | _ \<Rightarrow> False) t)
     \<and> (''score'' \<in> set (columns df) \<longrightarrow>
          page_filter num_str R
            \<lparr>selected_languages = [], slider = (Fin a, Fin b), selected_qualifications = [],
             review_choice = ''All'', search_box = ''''\<rparr> (numeric_view parse df)
          = Inr (select_rows (\<lambda>r. case as_float (get_cell r ''score'') of
                                    Some (Fin s) \<Rightarrow> a \<le> s \<and> s \<le> b | _ \<Rightarrow> False)
                  (numeric_view parse df))
          \<and> page_filter num_str R
            \<lparr>selected_languages = [], slider = slider_bounds (numeric_view parse df),
             selected_qualifications = [], review_choice = ''All'', search_box = ''''\<rparr>
            (numeric_view parse df)
          = Inr (select_rows (\<lambda>r. case as_float (get_cell r ''score'') of
                                    Some (Fin s) \<Rightarrow> True | _ \<Rightarrow> False)
                  (numeric_view parse df)))"
proof -
  have num: "numeric_scores t"
    using assms by (rule numeric_scores_load_data)
  have 1: "filter_data num_str (load_data parse dm df)
           (default_filters\<lparr>score_min := Some (Fin a), score_max := Some (Fin b)\<rparr>)
         = Inr (select_rows (\<lambda>r. case as_float (get_cell r ''score'') of
                                    Some (Fin s) \<Rightarrow> a \<le> s \<and> s \<le> b | _ \<Rightarrow> False) t)"
    by (simp only: filter_data_score_only[OF assms] score_between_Fin[OF num])
  have 2: "filter_data num_str (load_data parse dm df)
           (default_filters\<lparr>score_min := Some (column_min t), score_max := Some (column_max t)\<rparr>)
         = Inr (select_rows (\<lambda>r. case as_float (get_cell r ''score'') of
                                    Some (Fin s) \<Rightarrow> True | _ \<Rightarrow> False) t)"
    by (simp only: filter_data_score_only[OF assms] score_between_column_bounds[OF num])
  have 3: "page_filter num_str R
            \<lparr>selected_languages = [], slider = (Fin a, Fin b), selected_qualifications = [],
             review_choice = ''All'', search_box = ''''\<rparr> (numeric_view parse df)
          = Inr (select_rows (\<lambda>r. case as_float (get_cell r ''score'') of
                                    Some (Fin s) \<Rightarrow> a \<le> s \<and> s \<le> b | _ \<Rightarrow> False)
                  (numeric_view parse df))"
    if "''score'' \<in> set (columns df)"
    using numeric_scores_numeric_view[OF that, of parse]
    by (simp add: page_filter_score_only score_between_Fin numeric_scores_def)
  have 4: "page_filter num_str R
            \<lparr>selected_languages = [], slider = slider_bounds (numeric_view parse df),
             selected_qualifications = [], review_choice = ''All'', search_box = ''''\<rparr>
            (numeric_view parse df)
          = Inr (select_rows (\<lambda>r. case as_float (get_cell r ''score'') of
                                    Some (Fin s) \<Rightarrow> True | _ \<Rightarrow> False)
                  (numeric_view parse df))"
    if "''score'' \<in> set (columns df)"
    using numeric_scores_numeric_view[OF that, of parse]
    by (simp add: page_filter_score_only score_between_slider_bounds numeric_scores_def)
  from 1 2 3 4 show ?thesis by blast
qed

theorem score_range_filter_inclusive_witness:
  "data (load_data (\<lambda>s. if s = ''0.9'' then Fin 0.9 else NaN)
           \<lparr>data = None, reviewed_items = {}, reviewed_items_json = None\<rparr>
           \<lparr>columns = [''language'', ''score''],
            rows = [(0, [(''language'', Str ''EN''), (''score'', Str ''0.9'')]),
                    (1, [(''language'', Str ''FR''), (''score'', Str ''n/a'')]),
                    (2, [(''language'', Str ''EN''), (''score'', Flt (Fin 0.3))])]\<rparr>)
     = Some \<lparr>columns = [''language'', ''score''],
            rows = [(0, [(''language'', Str ''EN''), (''score'', Flt (Fin 0.9))]),
                    (1, [(''language'', Str ''FR''), (''score'', Flt NaN)]),
                    (2, [(''language'', Str ''EN''), (''score'', Flt (Fin 0.3))])]\<rparr>
   \<and> filter_data (\<lambda>c. ''?'')
        (load_data (\<lambda>s. if s = ''0.9'' then Fin 0.9 else NaN)
           \<lparr>data = None, reviewed_items = {}, reviewed_items_json = None\<rparr>
           \<lparr>columns = [''language'', ''score''],
            rows = [(0, [(''language'', Str ''EN''), (''score'', Str ''0.9'')]),
                    (1, [(''language'', Str ''FR''), (''score'', Str ''n/a'')]),
                    (2, [(''language'', Str ''EN''), (''score'', Flt (Fin 0.3))])]\<rparr>)
        (default_filters\<lparr>score_min := Some (Fin 0.3), score_max := Some (Fin 0.5)\<rparr>)
     = Inr \<lparr>columns = [''language'', ''score''],
            rows = [(2, [(''language'', Str ''EN''), (''score'', Flt (Fin 0.3))])]\<rparr>"
proof -
  have loaded: "data (load_data (\<lambda>s. if s = ''0.9'' then Fin 0.9 else NaN)
           \<lparr>data = None, reviewed_items = {}, reviewed_items_json = None\<rparr>
           \<lparr>columns = [''language'', ''score''],
            rows = [(0, [(''language'', Str ''EN''), (''score'', Str ''0.9'')]),
                    (1, [(''language'', Str ''FR''), (''score'', Str ''n/a'')]),
                    (2, [(''language'', Str ''EN''), (''score'', Flt (Fin 0.3))])]\<rparr>)
     = Some \<lparr>columns = [''language'', ''score''],
            rows = [(0, [(''language'', Str ''EN''), (''score'', Flt (Fin 0.9))]),
                    (1, [(''language'', Str ''FR''), (''score'', Flt NaN)]),
                    (2, [(''language'', Str ''EN''), (''score'', Flt (Fin 0.3))])]\<rparr>"
    by (simp add: load_data_def set_column_def get_cell_def)
  show ?thesis
    using loaded score_range_filter_inclusive
      [OF loaded, where num_str = "\<lambda>c. ''?''" and a = "0.3" and b = "0.5"]
    by (simp add: select_rows_def get_cell_def)
qed

section \<open>Searching\<close>

lemma nullable_accepts: "nullable r = accepts r []"
proof (induction r)
  case (Star r)
  have "[] = concat [] \<and> (\<forall>u \<in> set []. accepts r u)" by simp
  then have "accepts (Star r) []" unfolding accepts.simps by (rule exI)
  then show ?case by simp
qed auto

lemma concat_Cons_split:
  "(\<exists>ws. d # w = concat ws \<and> (\<forall>u \<in> set ws. P u)) \<longleftrightarrow>
   (\<exists>u v. w = u @ v \<and> P (d # u) \<and> (\<exists>ws. v = concat ws \<and> (\<forall>x \<in> set ws. P x)))"
  (is "?L = ?R")
proof
  assume ?L
  then obtain ws where "d # w = concat ws" "\<forall>u \<in> set ws. P u" by blast
  then show ?R
  proof (induction ws)
    case Nil
    then show ?case by simp
  next
    case (Cons x xs)
    show ?case
    proof (cases x)
      case Nil
      with Cons show ?thesis by simp
    next
      case (Cons e u)
      with Cons.prems have "e = d" "w = u @ concat xs" "P (d # u)" "\<forall>x \<in> set xs. P x"
        by simp_all
      then show ?thesis by blast
    qed
  qed
next
  assume ?R
  then obtain u v ws where "w = u @ v" "P (d # u)" "v = concat ws" "\<forall>x \<in> set ws. P x"
    by blast
  then have "d # w = concat ((d # u) # ws) \<and> (\<forall>x \<in> set ((d # u) # ws). P x)"
    by simp
  then show ?L by blast
qed

lemma deriv_accepts: "accepts (deriv d r) w = accepts r (d # w)"
proof (induction r arbitrary: w)
  case (Seq r s)
  then show ?case
    by (auto simp: nullable_accepts Cons_eq_append_conv)
next
  case (Star r)
  have "accepts (Star r) (d # w) =
      (\<exists>u v. w = u @ v \<and> accepts r (d # u) \<and> accepts (Star r) v)"
    using concat_Cons_split[of d w "accepts r"] by simp
  with Star show ?case by simp
qed auto


lemma match_here_accepts: "match_here r s = (\<exists>u v. s = u @ v \<and> accepts r u)"
proof (induction s arbitrary: r)
  case Nil
  show ?case by (simp add: nullable_accepts)
next
  case (Cons d ds)
  show ?case
    by (auto simp: Cons deriv_accepts nullable_accepts Cons_eq_append_conv)
qed

lemma re_search_accepts: "re_search r s = (\<exists>p u v. s = p @ u @ v \<and> accepts r u)"
proof (induction s)
  case Nil
  show ?case by (simp add: nullable_accepts)
next
  case (Cons d ds)
  have "(\<exists>p u v. d # ds = p @ u @ v \<and> accepts r u) =
      ((\<exists>u v. d # ds = u @ v \<and> accepts r u) \<or> (\<exists>p u v. ds = p @ u @ v \<and> accepts r u))"
    by (auto simp: Cons_eq_append_conv) (metis append_Nil)+
  then show ?case
    by (simp only: re_search.simps Cons match_here_accepts)
qed


lemma re_parse_plain:
  assumes "\<forall>c \<in> set cs. plain_char c"
  shows "re_parse cs (alts, items) stack = re_parse [] (alts, rev (map Lit cs) @ items) stack"
  using assms
proof (induction cs arbitrary: items)
  case Nil
  show ?case by simp
next
  case (Cons c cs)
  then have "plain_char c" and rest: "\<forall>c \<in> set cs. plain_char c" by simp_all
  then have "re_parse (c # cs) (alts, items) stack = re_parse cs (alts, Lit c # items) stack"
    by (simp add: plain_char_def)
  also have "\<dots> = re_parse [] (alts, rev (map Lit cs) @ Lit c # items) stack"
    using rest by (rule Cons.IH)
  finally show ?case by simp
qed

lemma re_compile_plain:
  assumes "\<forall>c \<in> set needle. plain_char c"
  shows "re_compile needle = Inr (seq_of (rev (map Lit needle)))"
  using re_parse_plain[OF assms, of "[]" "[]" "[]"]
  by (simp add: re_compile_def close_frame_def)

lemma accepts_literals:
  "accepts (seq_of (rev (map Lit cs))) u
     = list_all2 (\<lambda>c d. lower_code c = lower_code d) cs u"
proof (induction cs arbitrary: u rule: rev_induct)
  case Nil
  show ?case by simp
next
  case (snoc c cs)
  let ?same = "\<lambda>c d. lower_code c = lower_code d"
  have "accepts (seq_of (rev (map Lit (cs @ [c])))) u
      = (\<exists>u1 v. u = u1 @ v \<and> list_all2 ?same cs u1 \<and> (\<exists>d. v = [d] \<and> ?same c d))"
    by (simp add: snoc)
  also have "\<dots> = (\<exists>u1 v. u = u1 @ v \<and> list_all2 ?same cs u1 \<and> list_all2 ?same [c] v)"
    by (simp add: list_all2_Cons1)
  also have "\<dots> = list_all2 ?same (cs @ [c]) u"
  proof
    assume "\<exists>u1 v. u = u1 @ v \<and> list_all2 ?same cs u1 \<and> list_all2 ?same [c] v"
    then obtain u1 v where parts: "u = u1 @ v" "list_all2 ?same cs u1" "list_all2 ?same [c] v"
      by blast
    from parts(2) have "length cs = length u1" by (rule list_all2_lengthD)
    with parts show "list_all2 ?same (cs @ [c]) u" by (simp add: list_all2_append)
  next
    assume "list_all2 ?same (cs @ [c]) u"
    then obtain us vs where "u = us @ vs" "list_all2 ?same cs us" "list_all2 ?same [c] vs"
      unfolding list_all2_append1 by blast
    then show "\<exists>u1 v. u = u1 @ v \<and> list_all2 ?same cs u1 \<and> list_all2 ?same [c] v"
      by blast
  qed
  finally show ?case .
qed

lemma starts_with_split:
  "starts_with cs s = (\<exists>u v. s = u @ v \<and> list_all2 (\<lambda>c d. lower_code c = lower_code d) cs u)"
proof (induction cs s rule: starts_with.induct)
  case (1 s)
  show ?case by simp
next
  case (2 c cs)
  show ?case by (simp add: list_all2_Cons1)
next
  case (3 c cs d ds)
  show ?case
    by (auto simp: 3 list_all2_Cons1 Cons_eq_append_conv)
qed

lemma contains_literal_split:
  "contains_literal cs s
     = (\<exists>p u v. s = p @ u @ v \<and> list_all2 (\<lambda>c d. lower_code c = lower_code d) cs u)"
proof (induction s)
  case Nil
  show ?case by (simp add: starts_with_split)
next
  case (Cons d ds)
  have "(\<exists>p u v. d # ds = p @ u @ v \<and> list_all2 (\<lambda>c d. lower_code c = lower_code d) cs u) =
      ((\<exists>u v. d # ds = u @ v \<and> list_all2 (\<lambda>c d. lower_code c = lower_code d) cs u)
       \<or> (\<exists>p u v. ds = p @ u @ v \<and> list_all2 (\<lambda>c d. lower_code c = lower_code d) cs u))"
    by (auto simp: Cons_eq_append_conv) (metis append_Nil)+
  then show ?case
    by (simp only: contains_literal.simps Cons starts_with_split)
qed

lemma plain_search_is_literal:
  assumes "\<forall>c \<in> set needle. plain_char c"
  shows "\<exists>re. re_compile needle = Inr re \<and> (\<forall>s. re_search re s = contains_literal needle s)"
  using re_compile_plain[OF assms]
  by (simp add: re_search_accepts contains_literal_split accepts_literals)

lemma plain_search_rows:
  assumes "\<forall>c \<in> set needle. plain_char c"
  shows "search_rows num_str needle df =
     Inr (select_rows
           (\<lambda>r. list_ex (\<lambda>c. contains_literal needle (astype_str num_str (get_cell r c)))
                   (columns df)) df)"
proof (cases "is_empty df")
  case True
  then have "filter (\<lambda>r. list_ex (\<lambda>c. contains_literal needle (astype_str num_str (get_cell r c)))
                   (columns df)) (rows df) = []"
    by (auto simp: is_empty_def)
  with True show ?thesis by (simp add: search_rows_def select_rows_def)
next
  case False
  from plain_search_is_literal[OF assms] obtain re
    where "re_compile needle = Inr re" "\<And>s. re_search re s = contains_literal needle s"
    by blast
  with False show ?thesis by (simp add: search_rows_def)
qed


text \<open>
  A search term made of ordinary characters only is searched for as it is written:
  \<open>filter_data\<close> keeps, in order, exactly the rows in which the string form of some
  column contains the term, case ignored.
\<close>

theorem plain_term_search:
  assumes "data dm = Some t" and "needle \<noteq> []" and "\<forall>c \<in> set needle. plain_char c"
  shows "filter_data num_str dm (default_filters\<lparr>search_term := Some needle\<rparr>) =
     Inr (select_rows
           (\<lambda>r. list_ex (\<lambda>c. contains_literal needle (astype_str num_str (get_cell r c)))
                   (columns t)) t)"
proof -
  from assms(2) obtain c cs where "needle = c # cs" by (cases needle) auto
  then have "filter_data num_str dm (default_filters\<lparr>search_term := Some needle\<rparr>)
      = search_rows num_str needle t"
    using assms(1)
    by (simp add: filter_data_def default_filters_def language_filter_def
        qualification_filter_def score_filter_def review_filter_def search_filter_def)
  then show ?thesis by (simp only: plain_search_rows[OF assms(3)])
qed

theorem plain_term_search_witness:
  "data \<lparr>data = Some \<lparr>columns = [''questions''],
                     rows = [(0, [(''questions'', Str ''Age (Years)'')]),
                             (1, [(''questions'', Str ''Gender'')])]\<rparr>,
         reviewed_items = {}, reviewed_items_json = None\<rparr>
     = Some \<lparr>columns = [''questions''],
             rows = [(0, [(''questions'', Str ''Age (Years)'')]),
                     (1, [(''questions'', Str ''Gender'')])]\<rparr>
   \<and> ''years'' \<noteq> []
   \<and> list_all plain_char ''years''
   \<and> filter_data (\<lambda>c. ''?'')
        \<lparr>data = Some \<lparr>columns = [''questions''],
                     rows = [(0, [(''questions'', Str ''Age (Years)'')]),
                             (1, [(''questions'', Str ''Gender'')])]\<rparr>,
         reviewed_items = {}, reviewed_items_json = None\<rparr>
        (default_filters\<lparr>search_term := Some ''years''\<rparr>)
     = Inr \<lparr>columns = [''questions''], rows = [(0, [(''questions'', Str ''Age (Years)'')])]\<rparr>"
proof -
  have plain: "\<forall>c \<in> set ''years''. plain_char c"
    by (simp add: plain_char_def outside_fragment_def)
  have loaded: "data \<lparr>data = Some \<lparr>columns = [''questions''],
                     rows = [(0, [(''questions'', Str ''Age (Years)'')]),
                             (1, [(''questions'', Str ''Gender'')])]\<rparr>,
         reviewed_items = {}, reviewed_items_json = None\<rparr>
     = Some \<lparr>columns = [''questions''],
             rows = [(0, [(''questions'', Str ''Age (Years)'')]),
                     (1, [(''questions'', Str ''Gender'')])]\<rparr>"
    by simp
  have nonempty: "''years'' \<noteq> []" by simp
  have kept: "contains_literal ''years'' ''Age (Years)''"
    by (simp add: lower_code_def)
  have dropped: "\<not> contains_literal ''years'' ''Gender''"
    by (simp add: lower_code_def)
  have "filter_data (\<lambda>c. ''?'')
        \<lparr>data = Some \<lparr>columns = [''questions''],
                     rows = [(0, [(''questions'', Str ''Age (Years)'')]),
                             (1, [(''questions'', Str ''Gender'')])]\<rparr>,
         reviewed_items = {}, reviewed_items_json = None\<rparr>
        (default_filters\<lparr>search_term := Some ''years''\<rparr>)
     = Inr \<lparr>columns = [''questions''], rows = [(0, [(''questions'', Str ''Age (Years)'')])]\<rparr>"
    unfolding plain_term_search [OF loaded nonempty plain]
    by (simp add: select_rows_def get_cell_def kept dropped
        del: contains_literal.simps starts_with.simps)
  moreover have "list_all plain_char ''years''"
    using plain by (simp only: list_all_iff)
  ultimately show ?thesis using loaded nonempty by (intro conjI)
qed

text \<open>
  C2. The search term is compiled as a regular expression, not searched for as it is
  written. The term \<open>(\<close> occurs literally in the cell \<open>Age (years)\<close>, and both
  \<open>filter_data\<close> and the page's filter raise on it instead of keeping the row. The term
  \<open>a.c\<close> does not occur in the cell \<open>abc\<close>, and the row is kept.
\<close>

theorem search_term_compiled_as_pattern:
  "contains_literal ''('' ''Age (years)''
   \<and> filter_data num_str
        \<lparr>data = Some \<lparr>columns = [''questions''],
                       rows = [(0, [(''questions'', Str ''Age (years)'')])]\<rparr>,
         reviewed_items = {}, reviewed_items_json = None\<rparr>
        (default_filters\<lparr>search_term := Some ''(''\<rparr>)
      = Inl ReError
   \<and> page_filter num_str {}
        \<lparr>selected_languages = [], slider = (Fin 0, Fin 1), selected_qualifications = [],
         review_choice = ''All'', search_box = ''(''\<rparr>
        \<lparr>columns = [''questions''], rows = [(0, [(''questions'', Str ''Age (years)'')])]\<rparr>
      = Inl ReError
   \<and> \<not> contains_literal ''a.c'' ''abc''
   \<and> filter_data num_str
        \<lparr>data = Some \<lparr>columns = [''questions''], rows = [(0, [(''questions'', Str ''abc'')])]\<rparr>,
         reviewed_items = {}, reviewed_items_json = None\<rparr>
        (default_filters\<lparr>search_term := Some ''a.c''\<rparr>)
      = Inr \<lparr>columns = [''questions''], rows = [(0, [(''questions'', Str ''abc'')])]\<rparr>"
proof (intro conjI)
  show "contains_literal ''('' ''Age (years)''"
    by (simp add: lower_code_def)
  show "\<not> contains_literal ''a.c'' ''abc''"
    by (simp add: lower_code_def)
  have bad: "re_compile ''('' = Inl ReError"
    by (simp add: re_compile_def)
  show "filter_data num_str
        \<lparr>data = Some \<lparr>columns = [''questions''],
                       rows = [(0, [(''questions'', Str ''Age (years)'')])]\<rparr>,
         reviewed_items = {}, reviewed_items_json = None\<rparr>
        (default_filters\<lparr>search_term := Some ''(''\<rparr>)
      = Inl ReError"
    by (simp add: filter_data_def default_filters_def language_filter_def
        qualification_filter_def score_filter_def review_filter_def search_filter_def
        search_rows_def is_empty_def bad)
  show "page_filter num_str {}
        \<lparr>selected_languages = [], slider = (Fin 0, Fin 1), selected_qualifications = [],
         review_choice = ''All'', search_box = ''(''\<rparr>
        \<lparr>columns = [''questions''], rows = [(0, [(''questions'', Str ''Age (years)'')])]\<rparr>
      = Inl ReError"
    by (simp add: page_filter_def search_rows_def is_empty_def bad)
  have good: "re_compile ''a.c'' = Inr (Seq (Seq (Seq Empty (Lit CHR ''a'')) Dot) (Lit CHR ''c''))"
    by (simp add: re_compile_def close_frame_def outside_fragment_def)
  have found: "re_search (Seq (Seq (Seq Empty (Lit CHR ''a'')) Dot) (Lit CHR ''c'')) ''abc''"
    by (simp add: lower_code_def)
  show "filter_data num_str
        \<lparr>data = Some \<lparr>columns = [''questions''], rows = [(0, [(''questions'', Str ''abc'')])]\<rparr>,
         reviewed_items = {}, reviewed_items_json = None\<rparr>
        (default_filters\<lparr>search_term := Some ''a.c''\<rparr>)
      = Inr \<lparr>columns = [''questions''], rows = [(0, [(''questions'', Str ''abc'')])]\<rparr>"
    by (simp add: filter_data_def default_filters_def language_filter_def
        qualification_filter_def score_filter_def review_filter_def search_filter_def
        search_rows_def is_empty_def select_rows_def get_cell_def good found)
qed

section \<open>Pagination\<close>

lemma div_bounds:
  fixes n s :: int
  assumes "0 < s"
  shows "((n - 1) div s) * s < n" and "n \<le> ((n - 1) div s + 1) * s"
proof -
  have d: "n - 1 = ((n - 1) div s) * s + (n - 1) mod s" by simp
  have m: "0 \<le> (n - 1) mod s" "(n - 1) mod s < s" using assms by simp_all
  show "((n - 1) div s) * s < n" using d m by linarith
  have "((n - 1) div s + 1) * s = ((n - 1) div s) * s + s" by (simp add: algebra_simps)
  then show "n \<le> ((n - 1) div s + 1) * s" using d m by linarith
qed

lemma total_pages_pos:
  assumes "0 < n" and "0 < s"
  shows "total_pages n s = (n - 1) div s + 1"
proof -
  have "0 \<le> (n - 1) div s" using assms by (simp add: pos_imp_zdiv_nonneg_iff)
  then show ?thesis by (simp add: total_pages_def)
qed

lemma total_pages_ceiling:
  assumes "0 < n" and "0 < s"
  shows "total_pages n s = \<lceil>real_of_int n / real_of_int s\<rceil>"
proof -
  let ?q = "(n - 1) div s"
  have "real_of_int (?q * s) < real_of_int n" "real_of_int n \<le> real_of_int ((?q + 1) * s)"
    using div_bounds[OF assms(2), of n] by (simp_all only: of_int_less_iff of_int_le_iff)
  then have "real_of_int (?q + 1) - 1 < real_of_int n / real_of_int s"
    and "real_of_int n / real_of_int s \<le> real_of_int (?q + 1)"
    using assms(2) by (simp_all add: pos_less_divide_eq pos_divide_le_eq)
  then have "\<lceil>real_of_int n / real_of_int s\<rceil> = ?q + 1"
    by (rule ceiling_unique)
  then show ?thesis by (simp add: total_pages_pos[OF assms])
qed

lemma ceiling_zero_pages: "\<lceil>real_of_int 0 / real_of_int s\<rceil> = 0"
  by simp

lemma concat_chunks:
  "concat (map (\<lambda>k. take s (drop (k * s) xs)) [0..<m]) = take (m * s) xs"
proof (induction m)
  case 0
  show ?case by simp
next
  case (Suc m)
  have "take (Suc m * s) xs = take (m * s) xs @ take s (drop (m * s) xs)"
    using take_add[of "m * s" s xs] by (simp add: add.commute)
  with Suc show ?case by simp
qed

lemma upto_from_one: "[1..int m] = map (\<lambda>k. int k + 1) [0..<m]"
  by (induction m) (simp_all add: upto_rec2)

lemma py_slice_middle:
  assumes "0 \<le> a" and "a \<le> b" and "b \<le> int (length xs)"
  shows "py_slice xs a b = take (nat (b - a)) (drop (nat a) xs)"
  using assms by (simp add: py_slice_def Let_def min_def)

lemma take_drop_as_nth:
  assumes "a + k \<le> length xs"
  shows "take k (drop a xs) = map ((!) xs) [a..<a + k]"
proof (rule nth_equalityI)
  show "length (take k (drop a xs)) = length (map ((!) xs) [a..<a + k])"
    using assms by simp
next
  fix i assume "i < length (take k (drop a xs))"
  then have "i < k" by simp
  then show "take k (drop a xs) ! i = map ((!) xs) [a..<a + k] ! i"
    using assms by (simp add: nth_map_upt)
qed

lemma slice_as_nth:
  assumes "0 \<le> a" and "a \<le> b" and "b \<le> int (length xs)"
  shows "py_slice xs a b = map ((!) xs) [nat a..<nat b]"
proof -
  have "nat a + nat (b - a) \<le> length xs" "nat a + nat (b - a) = nat b"
    using assms by simp_all
  then show ?thesis
    using take_drop_as_nth[of "nat a" "nat (b - a)" xs] py_slice_middle[OF assms] by simp
qed

lemma show_page_cases:
  fixes df :: dataframe and s q :: int
  assumes "0 < s" and "rows df \<noteq> []"
  defines "n \<equiv> int (length (rows df))"
  defines "p \<equiv> number_input 1 (total_pages n s) q"
  shows "show_page df s q =
           Some \<lparr>page_no = p, start_idx = (p - 1) * s, end_idx = min (p * s) n,
                 page_data = py_slice (rows df) ((p - 1) * s) (min (p * s) n)\<rparr>"
    and "1 \<le> p" and "p \<le> total_pages n s"
    and "0 \<le> (p - 1) * s" and "(p - 1) * s \<le> min (p * s) n" and "min (p * s) n \<le> n"
proof -
  have npos: "0 < n" using assms(2) by (simp add: n_def)
  have tp: "1 \<le> total_pages n s" by (simp add: total_pages_def)
  show p1: "1 \<le> p" and p2: "p \<le> total_pages n s"
    using tp by (simp_all add: p_def number_input_def)
  have "(p - 1) * s + s = p * s" by (simp add: algebra_simps)
  then show "show_page df s q =
           Some \<lparr>page_no = p, start_idx = (p - 1) * s, end_idx = min (p * s) n,
                 page_data = py_slice (rows df) ((p - 1) * s) (min (p * s) n)\<rparr>"
    using assms(2) by (simp add: show_page_def Let_def n_def[symmetric] p_def[symmetric])
  show "0 \<le> (p - 1) * s" using p1 assms(1) by simp
  have "p - 1 \<le> (n - 1) div s"
    using p2 by (simp add: total_pages_pos[OF npos assms(1)])
  then have "(p - 1) * s \<le> ((n - 1) div s) * s"
    using assms(1) by (simp add: mult_right_mono)
  then have "(p - 1) * s \<le> n" using div_bounds(1)[OF assms(1), of n] by linarith
  moreover have "(p - 1) * s \<le> p * s" using assms(1) by (simp add: mult_right_mono)
  ultimately show "(p - 1) * s \<le> min (p * s) n" by simp
  show "min (p * s) n \<le> n" by simp
qed


lemma page_rows_chunk:
  fixes df :: dataframe and s :: int and k :: nat
  assumes "0 < s" and "rows df \<noteq> []"
    and "int k < total_pages (int (length (rows df))) s"
  shows "page_rows df s (int k + 1) = take (nat s) (drop (k * nat s) (rows df))"
proof -
  let ?n = "int (length (rows df))"
  let ?p = "number_input 1 (total_pages ?n s) (int k + 1)"
  have p: "?p = int k + 1"
    using assms(3) by (simp add: number_input_def)
  note facts = show_page_cases[OF assms(1,2), of "int k + 1"]
  have lo: "(?p - 1) * s = int k * s" by (simp add: p)
  have "page_rows df s (int k + 1) = py_slice (rows df) ((?p - 1) * s) (min (?p * s) ?n)"
    by (simp add: page_rows_def facts(1))
  also have "\<dots> = take (nat (min (?p * s) ?n - (?p - 1) * s)) (drop (nat ((?p - 1) * s)) (rows df))"
    using facts(4,5,6) by (rule py_slice_middle)
  also have "nat ((?p - 1) * s) = k * nat s"
    using assms(1) by (simp add: lo nat_mult_distrib)
  also have "take (nat (min (?p * s) ?n - (?p - 1) * s)) (drop (k * nat s) (rows df))
      = take (nat s) (drop (k * nat s) (rows df))"
  proof (cases "?p * s \<le> ?n")
    case True
    then have "min (?p * s) ?n - (?p - 1) * s = s" by (simp add: algebra_simps)
    then show ?thesis by simp
  next
    case False
    then have "min (?p * s) ?n - (?p - 1) * s = ?n - int k * s" by (simp add: lo)
    moreover have "nat (?n - int k * s) = length (drop (k * nat s) (rows df))"
      using assms(1) by (simp add: nat_diff_distrib' nat_mult_distrib)
    moreover have "length (drop (k * nat s) (rows df)) \<le> nat s"
    proof -
      have "\<not> (int k + 1) * s \<le> ?n" using False unfolding p .
      then have "?n - int k * s < s" by (simp add: algebra_simps)
      then have "nat (?n - int k * s) \<le> nat s" by simp
      then show ?thesis
        using \<open>nat (?n - int k * s) = length (drop (k * nat s) (rows df))\<close> by simp
    qed
    ultimately show ?thesis by simp
  qed
  finally show ?thesis .
qed

lemma pages_cover:
  fixes df :: dataframe and s :: int
  assumes "0 < s"
  shows "concat (map (page_rows df s)
           [1..\<lceil>real_of_int (int (length (rows df))) / real_of_int s\<rceil>]) = rows df"
proof (cases "rows df = []")
  case True
  then show ?thesis by simp
next
  case False
  let ?n = "int (length (rows df))"
  let ?m = "nat (total_pages ?n s)"
  have npos: "0 < ?n" using False by simp
  have tp: "total_pages ?n s = \<lceil>real_of_int ?n / real_of_int s\<rceil>"
    using npos assms by (rule total_pages_ceiling)
  have tp1: "1 \<le> total_pages ?n s" by (simp add: total_pages_def)
  then have m: "int ?m = total_pages ?n s" by simp
  have "concat (map (page_rows df s) [1..int ?m])
      = concat (map (\<lambda>k. page_rows df s (int k + 1)) [0..<?m])"
    by (simp only: upto_from_one map_map comp_def)
  also have "map (\<lambda>k. page_rows df s (int k + 1)) [0..<?m]
      = map (\<lambda>k. take (nat s) (drop (k * nat s) (rows df))) [0..<?m]"
  proof (rule map_cong[OF refl])
    fix k assume "k \<in> set [0..<?m]"
    then have "int k < total_pages ?n s" using m by simp
    then show "page_rows df s (int k + 1) = take (nat s) (drop (k * nat s) (rows df))"
      by (rule page_rows_chunk[OF assms False])
  qed
  also have "concat \<dots> = take (?m * nat s) (rows df)"
    by (rule concat_chunks)
  also have "\<dots> = rows df"
  proof -
    have "?n \<le> total_pages ?n s * s"
      using div_bounds(2)[OF assms, of ?n] by (simp add: total_pages_pos[OF npos assms])
    then have "?n \<le> int (?m * nat s)"
      using assms tp1 by (simp add: nat_mult_distrib[symmetric])
    then have "length (rows df) \<le> ?m * nat s" by linarith
    then show ?thesis by simp
  qed
  finally have "concat (map (page_rows df s) [1..total_pages ?n s]) = rows df"
    unfolding m .
  then show ?thesis unfolding tp .
qed


text \<open>
  C5. For a positive page size (the menu offers 10, 25, 50 and 100): a table with no rows
  shows no page; otherwise the page shown for a typed number is page \<open>p\<close>, the typed
  number moved into \<open>1 .. ceil(total/size)\<close>, and its rows are the rows at the positions
  from \<open>(p - 1) * size\<close> up to, not including, \<open>min (p * size) total\<close>. The pages
  \<open>1 .. ceil(total/size)\<close> one after the other are the rows of the table, in order,
  for every total.
\<close>

theorem pagination_slices:
  fixes df :: dataframe and items_per_page typed :: int
  assumes "0 < items_per_page"
  shows "(rows df = [] \<longrightarrow> show_page df items_per_page typed = None)
    \<and> (rows df \<noteq> [] \<longrightarrow>
         (\<exists>pg. show_page df items_per_page typed = Some pg
            \<and> page_no pg =
                max 1 (min \<lceil>real_of_int (int (length (rows df))) / real_of_int items_per_page\<rceil>
                           typed)
            \<and> start_idx pg = (page_no pg - 1) * items_per_page
            \<and> end_idx pg = min (page_no pg * items_per_page) (int (length (rows df)))
            \<and> page_data pg = map ((!) (rows df)) [nat (start_idx pg)..<nat (end_idx pg)]))
    \<and> concat (map (page_rows df items_per_page)
          [1..\<lceil>real_of_int (int (length (rows df))) / real_of_int items_per_page\<rceil>])
        = rows df"
proof (intro conjI impI)
  assume "rows df = []"
  then show "show_page df items_per_page typed = None"
    by (simp add: show_page_def)
next
  assume nonempty: "rows df \<noteq> []"
  let ?n = "int (length (rows df))"
  let ?p = "number_input 1 (total_pages ?n items_per_page) typed"
  let ?pg = "\<lparr>page_no = ?p, start_idx = (?p - 1) * items_per_page,
              end_idx = min (?p * items_per_page) ?n,
              page_data = py_slice (rows df) ((?p - 1) * items_per_page)
                            (min (?p * items_per_page) ?n)\<rparr>"
  note facts = show_page_cases[OF assms nonempty, of typed]
  have "0 < ?n" using nonempty by simp
  then have tp: "total_pages ?n items_per_page
      = \<lceil>real_of_int ?n / real_of_int items_per_page\<rceil>"
    using assms by (rule total_pages_ceiling)
  have "1 \<le> total_pages ?n items_per_page" by (simp add: total_pages_def)
  then have "?p = max 1 (min (total_pages ?n items_per_page) typed)"
    by (simp add: number_input_def max_def min_def)
  then have clamp: "page_no ?pg
      = max 1 (min \<lceil>real_of_int ?n / real_of_int items_per_page\<rceil> typed)"
    by (simp add: tp)
  have slice: "page_data ?pg = map ((!) (rows df)) [nat (start_idx ?pg)..<nat (end_idx ?pg)]"
    using slice_as_nth[OF facts(4,5,6)] by simp
  show "\<exists>pg. show_page df items_per_page typed = Some pg
            \<and> page_no pg =
                max 1 (min \<lceil>real_of_int (int (length (rows df))) / real_of_int items_per_page\<rceil>
                           typed)
            \<and> start_idx pg = (page_no pg - 1) * items_per_page
            \<and> end_idx pg = min (page_no pg * items_per_page) (int (length (rows df)))
            \<and> page_data pg = map ((!) (rows df)) [nat (start_idx pg)..<nat (end_idx pg)]"
    using facts(1) clamp slice by (intro exI[of _ ?pg] conjI) simp_all
next
  show "concat (map (page_rows df items_per_page)
          [1..\<lceil>real_of_int (int (length (rows df))) / real_of_int items_per_page\<rceil>])
        = rows df"
    using assms by (rule pages_cover)
qed

theorem pagination_slices_witness:
  "(0::int) < 10
   \<and> show_page \<lparr>columns = [], rows = [(0, []), (1, []), (2, []), (3, []), (4, []), (5, []),
        (6, []), (7, []), (8, []), (9, []), (10, []), (11, [])]\<rparr> 10 7
      = Some \<lparr>page_no = 2, start_idx = 10, end_idx = 12, page_data = [(10, []), (11, [])]\<rparr>
   \<and> concat (map (page_rows \<lparr>columns = [], rows = [(0, []), (1, []), (2, []), (3, []), (4, []),
        (5, []), (6, []), (7, []), (8, []), (9, []), (10, []), (11, [])]\<rparr> 10)
          [1..\<lceil>real_of_int 12 / real_of_int 10\<rceil>])
      = [(0, []), (1, []), (2, []), (3, []), (4, []), (5, []),
        (6, []), (7, []), (8, []), (9, []), (10, []), (11, [])]"
proof -
  let ?df = "\<lparr>columns = [], rows = [(0, []), (1, []), (2, []), (3, []), (4, []), (5, []),
        (6, []), (7, []), (8, []), (9, []), (10, []), (11, [])]\<rparr> :: dataframe"
  have size: "(0::int) < 10" by simp
  have shown: "show_page ?df 10 7
      = Some \<lparr>page_no = 2, start_idx = 10, end_idx = 12, page_data = [(10, []), (11, [])]\<rparr>"
    by code_simp
  have len: "int (length [(0::int, []::(string \<times> cell) list), (1, []), (2, []), (3, []),
        (4, []), (5, []), (6, []), (7, []), (8, []), (9, []), (10, []), (11, [])]) = 12"
    by simp
  have contents: "rows ?df = [(0, []), (1, []), (2, []), (3, []), (4, []), (5, []),
        (6, []), (7, []), (8, []), (9, []), (10, []), (11, [])]" by simp
  have "concat (map (page_rows ?df 10)
          [1..\<lceil>real_of_int (int (length (rows ?df))) / real_of_int 10\<rceil>]) = rows ?df"
    using pagination_slices [OF size, where df = ?df and typed = 7] by (elim conjE)
  then have cover: "concat (map (page_rows ?df 10) [1..\<lceil>real_of_int 12 / real_of_int 10\<rceil>])
      = [(0, []), (1, []), (2, []), (3, []), (4, []), (5, []),
        (6, []), (7, []), (8, []), (9, []), (10, []), (11, [])]"
    unfolding contents len .
  from size shown cover show ?thesis by (intro conjI)
qed

section \<open>Exports\<close>

lemma set_labels_loc: "set (row_labels (loc df ls)) = set ls \<inter> set (row_labels df)"
  by (auto simp: row_labels_def loc_def)

lemma row_labels_set_column [simp]: "row_labels (set_column c f df) = row_labels df"
  by (simp add: row_labels_def set_column_def comp_def)

lemma row_labels_Nil: "rows df = [] \<Longrightarrow> row_labels df = []"
  by (simp add: row_labels_def)

lemma export_ids_all: "export_ids (export_all R df) = set (row_labels df)"
  by (simp add: export_ids_def export_all_def row_labels_Nil)

lemma export_ids_reviewed: "export_ids (export_reviewed R df) = set (row_labels df) \<inter> R"
  by (auto simp: export_ids_def export_reviewed_def Let_def set_labels_loc filter_empty_conv row_labels_Nil)

lemma export_ids_non_reviewed: "export_ids (export_non_reviewed R df) = set (row_labels df) - R"
  by (auto simp: export_ids_def export_non_reviewed_def Let_def set_labels_loc filter_empty_conv)
   (auto simp: row_labels_def)

text \<open>
  C4. The identifiers of the reviewed export and of the non-reviewed export together are
  the identifiers of the export of all filtered rows, no identifier is in both, and an
  identifier of the filtered table is in the reviewed export exactly when it is in the
  review set.
\<close>

theorem exports_partition:
  "export_ids (export_reviewed R df) \<union> export_ids (export_non_reviewed R df)
     = export_ids (export_all R df)
   \<and> export_ids (export_reviewed R df) \<inter> export_ids (export_non_reviewed R df) = {}
   \<and> export_ids (export_reviewed R df) = {i \<in> export_ids (export_all R df). i \<in> R}
   \<and> export_ids (export_non_reviewed R df) = {i \<in> export_ids (export_all R df). i \<notin> R}"
  unfolding export_ids_all export_ids_reviewed export_ids_non_reviewed by auto

theorem exports_partition_witness:
  "export_ids (export_reviewed {0, 2, 7}
      \<lparr>columns = [''language''],
       rows = [(0, [(''language'', Str ''EN'')]), (1, [(''language'', Str ''FR'')]),
               (2, [(''language'', Str ''EN'')])]\<rparr>) = {0, 2}
   \<and> export_ids (export_non_reviewed {0, 2, 7}
      \<lparr>columns = [''language''],
       rows = [(0, [(''language'', Str ''EN'')]), (1, [(''language'', Str ''FR'')]),
               (2, [(''language'', Str ''EN'')])]\<rparr>) = {1}
   \<and> export_ids (export_all {0, 2, 7}
      \<lparr>columns = [''language''],
       rows = [(0, [(''language'', Str ''EN'')]), (1, [(''language'', Str ''FR'')]),
               (2, [(''language'', Str ''EN'')])]\<rparr>) = {0, 1, 2}"
  using exports_partition
    [of "{0, 2, 7}" "\<lparr>columns = [''language''],
       rows = [(0, [(''language'', Str ''EN'')]), (1, [(''language'', Str ''FR'')]),
               (2, [(''language'', Str ''EN'')])]\<rparr>"]
  by (auto simp: export_ids_def export_all_def export_reviewed_def export_non_reviewed_def
      row_labels_def loc_def set_column_def)

text \<open>
  C10. \<open>export_data_with_review_status\<close> without an argument exports the loaded
  table, or the empty table when none is loaded. On an empty table it returns the table
  as it is, with no column added. On a table that is not empty it keeps the rows and
  their cells, and sets the column \<open>reviewed_status\<close> (appended last when new) to
  whether the row's identifier is in the review set.
\<close>

theorem export_review_status_column:
  "export_data_with_review_status dm None =
     export_data_with_review_status dm
       (Some (case data dm of Some t \<Rightarrow> t | None \<Rightarrow> empty_frame))
   \<and> (data dm = None \<longrightarrow> export_data_with_review_status dm None = empty_frame)
   \<and> (is_empty d \<longrightarrow> export_data_with_review_status dm (Some d) = d)
   \<and> (\<not> is_empty d \<longrightarrow>
        columns (export_data_with_review_status dm (Some d)) =
          (if ''reviewed_status'' \<in> set (columns d) then columns d
           else columns d @ [''reviewed_status''])
        \<and> length (rows (export_data_with_review_status dm (Some d))) = length (rows d)
        \<and> (\<forall>k < length (rows d).
              fst (rows (export_data_with_review_status dm (Some d)) ! k) = fst (rows d ! k)
              \<and> get_cell (rows (export_data_with_review_status dm (Some d)) ! k) ''reviewed_status''
                  = Bool (fst (rows d ! k) \<in> reviewed_items dm)
              \<and> (\<forall>c. c \<noteq> ''reviewed_status'' \<longrightarrow>
                    get_cell (rows (export_data_with_review_status dm (Some d)) ! k) c
                      = get_cell (rows d ! k) c)))"
  by (simp add: export_data_with_review_status_def Let_def columns_set_column nth_set_column
      split: option.split)

theorem export_review_status_column_witness:
  "export_data_with_review_status
      \<lparr>data = None, reviewed_items = {1}, reviewed_items_json = None\<rparr>
      (Some \<lparr>columns = [''language''],
             rows = [(0, [(''language'', Str ''EN'')]), (1, [(''language'', Str ''FR'')])]\<rparr>)
    = \<lparr>columns = [''language'', ''reviewed_status''],
       rows = [(0, [(''language'', Str ''EN''), (''reviewed_status'', Bool False)]),
               (1, [(''language'', Str ''FR''), (''reviewed_status'', Bool True)])]\<rparr>
   \<and> export_data_with_review_status
      \<lparr>data = None, reviewed_items = {1}, reviewed_items_json = None\<rparr>
      (Some \<lparr>columns = [''language''], rows = []\<rparr>)
    = \<lparr>columns = [''language''], rows = []\<rparr>
   \<and> export_data_with_review_status
      \<lparr>data = None, reviewed_items = {1}, reviewed_items_json = None\<rparr> None = empty_frame"
  using export_review_status_column
    [where dm = "\<lparr>data = None, reviewed_items = {1}, reviewed_items_json = None\<rparr>"
       and d = "\<lparr>columns = [''language''], rows = []\<rparr>"]
  by (simp add: export_data_with_review_status_def is_empty_def set_column_def empty_frame_def)

end
